theory Spec2Isabelle
  imports Complex_Main "HOL-Library.Word"
begin

section \<open>Strings\<close>

text \<open>
  Go strings are byte sequences; they are modelled as \<open>string\<close>. The helpers below follow
  the \<open>strings\<close> package on ASCII input: \<open>TrimSpace\<close> removes leading and trailing
  white space (space, tab, line feed, vertical tab, form feed, carriage return) and
  \<open>ToLower\<close> maps the letters A to Z to a to z.
\<close>

definition isSpace :: "char \<Rightarrow> bool" where
  "isSpace c = (c = CHR '' '' \<or> c = CHR 0x09 \<or> c = CHR 0x0A \<or> c = CHR 0x0B
                \<or> c = CHR 0x0C \<or> c = CHR 0x0D)"

definition TrimSpace :: "string \<Rightarrow> string" where
  "TrimSpace s = rev (dropWhile isSpace (rev (dropWhile isSpace s)))"

definition lowerChar :: "char \<Rightarrow> char" where
  "lowerChar c =
     (case map_of (zip ''ABCDEFGHIJKLMNOPQRSTUVWXYZ'' ''abcdefghijklmnopqrstuvwxyz'') c of
        Some l \<Rightarrow> l
      | None \<Rightarrow> c)"

definition ToLower :: "string \<Rightarrow> string" where
  "ToLower s = map lowerChar s"

fun HasPrefix :: "string \<Rightarrow> string \<Rightarrow> bool" where
  "HasPrefix s [] = True"
| "HasPrefix [] (p # ps) = False"
| "HasPrefix (c # cs) (p # ps) = (c = p \<and> HasPrefix cs ps)"

fun Contains :: "string \<Rightarrow> string \<Rightarrow> bool" where
  "Contains [] sub = (sub = [])"
| "Contains (c # cs) sub = (HasPrefix (c # cs) sub \<or> Contains cs sub)"

text \<open>Byte-wise lexicographic order, the \<open><\<close> of Go strings.\<close>

fun strLess :: "string \<Rightarrow> string \<Rightarrow> bool" where
  "strLess [] [] = False"
| "strLess [] (y # ys) = True"
| "strLess (x # xs) [] = False"
| "strLess (x # xs) (y # ys) =
     ((of_char x :: nat) < of_char y \<or> (x = y \<and> strLess xs ys))"

text \<open>\<open>strings.EqualFold\<close> on ASCII: equality up to letter case.\<close>

definition EqualFold :: "string \<Rightarrow> string \<Rightarrow> bool" where
  "EqualFold a b = (ToLower a = ToLower b)"

text \<open>The decimal digits of an unsigned number, as \<open>%d\<close> prints them.\<close>

fun decimal :: "nat \<Rightarrow> string" where
  "decimal n = (if n < 10 then [''0123456789'' ! n]
                else decimal (n div 10) @ [''0123456789'' ! (n mod 10)])"

declare decimal.simps [simp del]

section \<open>Time\<close>

text \<open>
  An instant (\<open>time.Time\<close>) is the number of nanoseconds elapsed since Go's zero instant,
  so \<open>IsZero\<close> is equality with 0; the wall clock never reads before it. A
  \<open>time.Duration\<close> is a signed number of nanoseconds.
\<close>

type_synonym instant = nat
type_synonym duration = int

definition Second :: nat where "Second = 1000000000"
definition Minute :: nat where "Minute = 60 * Second"

definition IsZero :: "instant \<Rightarrow> bool" where
  "IsZero t = (t = 0)"

definition Before :: "instant \<Rightarrow> instant \<Rightarrow> bool" where
  "Before t u = (t < u)"

text \<open>\<open>Duration.Milliseconds\<close>: integer division that truncates towards zero.\<close>

definition Milliseconds :: "duration \<Rightarrow> int" where
  "Milliseconds d = (if d < 0 then - ((- d) div 1000000) else d div 1000000)"

section \<open>Credential health registry\<close>

text \<open>
  \<open>credentialState\<close> of the router. \<open>failures\<close>, \<open>successes\<close> and \<open>total\<close> are
  Go integers that start at 0 and are only incremented (or reset to 0), so they are
  natural numbers here; \<open>inflight\<close> is a signed counter that is decremented without any
  check and so may become negative. \<open>ewmaLatency\<close> is a \<open>float64\<close>, idealised as a
  real number.
\<close>

record credentialState =
  inflight :: int
  failures :: nat
  successes :: nat
  total :: nat
  ewmaLatency :: real
  openUntil :: instant
  lastSeen :: instant
  lastErrorAt :: instant
  lastLatency :: duration
  lastStatus :: int

definition zeroState :: credentialState where
  "zeroState = \<lparr> inflight = 0, failures = 0, successes = 0, total = 0, ewmaLatency = 0,
                 openUntil = 0, lastSeen = 0, lastErrorAt = 0, lastLatency = 0,
                 lastStatus = 0 \<rparr>"

record routeCacheEntry =
  credentialID :: nat
  expiresAt :: instant

text \<open>
  The mutable part of \<open>Router\<close>: the \<open>sync.Map\<close> of credential states, the route cache
  and the per-pool counters (\<open>uint64\<close>). \<open>routeCacheTT\<close> is set once, by \<open>New\<close>, to
  90 seconds.
\<close>

record Router =
  credState :: "nat \<rightharpoonup> credentialState"
  routeCache :: "string \<rightharpoonup> routeCacheEntry"
  poolStates :: "nat \<rightharpoonup> 64 word"

definition routeCacheTT :: nat where
  "routeCacheTT = 90 * Second"

definition New :: Router where
  "New = \<lparr> credState = Map.empty, routeCache = Map.empty, poolStates = Map.empty \<rparr>"

abbreviation StatusUnauthorized :: int where "StatusUnauthorized \<equiv> 401"
abbreviation StatusForbidden :: int where "StatusForbidden \<equiv> 403"
abbreviation StatusTooManyRequests :: int where "StatusTooManyRequests \<equiv> 429"

definition minInt :: "nat \<Rightarrow> nat \<Rightarrow> nat" where
  "minInt a b = (if a < b then a else b)"

text \<open>\<open>LoadOrStore(credentialID, &credentialState{})\<close>: the stored state, or a fresh one.\<close>

definition loadOrZero :: "Router \<Rightarrow> nat \<Rightarrow> credentialState" where
  "loadOrZero r cid = (case credState r cid of None \<Rightarrow> zeroState | Some st \<Rightarrow> st)"

definition startRequest :: "Router \<Rightarrow> nat \<Rightarrow> Router" where
  "startRequest r cid =
     (let st = loadOrZero r cid
      in r\<lparr>credState := (credState r)(cid \<mapsto> st\<lparr>inflight := inflight st + 1\<rparr>)\<rparr>)"

text \<open>The part of \<open>EndRequest\<close> that runs under the credential's mutex.\<close>

definition backoff :: "nat \<Rightarrow> nat \<Rightarrow> nat \<Rightarrow> nat" where
  "backoff base f cap =
     (let d = base * 2 ^ minInt f 6 * Second in if d > cap then cap else d)"

definition updateHealth ::
  "credentialState \<Rightarrow> bool \<Rightarrow> int \<Rightarrow> duration \<Rightarrow> instant \<Rightarrow> credentialState" where
  "updateHealth st ok status latency now =
     (let latMs = real_of_int (Milliseconds latency);
          st1 = st\<lparr> lastLatency := latency, lastSeen := now, lastStatus := status,
                    total := total st + 1,
                    ewmaLatency := (if ewmaLatency st = 0 then latMs
                                    else if latMs > 0 then ewmaLatency st * 0.8 + latMs * 0.2
                                    else ewmaLatency st) \<rparr>
      in if ok \<and> status \<ge> 200 \<and> status < 500 \<and> status \<noteq> StatusTooManyRequests
             \<and> status \<noteq> StatusUnauthorized \<and> status \<noteq> StatusForbidden
         then st1\<lparr> successes := successes st1 + 1, failures := 0, openUntil := 0 \<rparr>
         else
           (let st2 = st1\<lparr> failures := failures st1 + 1, lastErrorAt := now \<rparr>
            in if status = StatusUnauthorized \<or> status = StatusForbidden
               then st2\<lparr> openUntil := now + 15 * Minute \<rparr>
               else if status = StatusTooManyRequests
               then st2\<lparr> openUntil := now + backoff 5 (failures st2) (2 * Minute) \<rparr>
               else if status \<ge> 500 \<or> status = 0
               then st2\<lparr> openUntil := now + backoff 15 (failures st2) (5 * Minute) \<rparr>
               else if failures st2 \<ge> 3
               then st2\<lparr> openUntil := now + 30 * Second \<rparr>
               else st2))"

definition EndRequest ::
  "Router \<Rightarrow> nat \<Rightarrow> bool \<Rightarrow> int \<Rightarrow> duration \<Rightarrow> instant \<Rightarrow> Router" where
  "EndRequest r cid ok status latency now =
     (if cid = 0 then r
      else
        (let st = loadOrZero r cid;
             st' = updateHealth (st\<lparr>inflight := inflight st - 1\<rparr>) ok status latency now
         in r\<lparr>credState := (credState r)(cid \<mapsto> st')\<rparr>))"

definition getInflight :: "Router \<Rightarrow> nat \<Rightarrow> int" where
  "getInflight r cid = (case credState r cid of None \<Rightarrow> 0 | Some st \<Rightarrow> inflight st)"

definition isCredentialOpen :: "Router \<Rightarrow> nat \<Rightarrow> instant \<Rightarrow> bool" where
  "isCredentialOpen r cid now =
     (case credState r cid of
        None \<Rightarrow> False
      | Some st \<Rightarrow> \<not> IsZero (openUntil st) \<and> Before now (openUntil st))"

section \<open>Route cache\<close>

definition routeKey :: "nat \<Rightarrow> string \<Rightarrow> string \<Rightarrow> string" where
  "routeKey poolID facade model =
     decimal poolID @ ''|'' @ ToLower (TrimSpace facade) @ ''|'' @ TrimSpace model"

definition RecordRouteResult ::
  "Router \<Rightarrow> nat \<Rightarrow> string \<Rightarrow> string \<Rightarrow> nat \<Rightarrow> bool \<Rightarrow> int \<Rightarrow> instant \<Rightarrow> Router" where
  "RecordRouteResult r poolID facade model cid ok status now =
     (if poolID = 0 \<or> cid = 0 then r
      else
        (let key = routeKey poolID facade model
         in if ok
            then r\<lparr>routeCache := (routeCache r)
                     (key \<mapsto> \<lparr> credentialID = cid, expiresAt = now + routeCacheTT \<rparr>)\<rparr>
            else if status = StatusUnauthorized \<or> status = StatusForbidden
                    \<or> status = StatusTooManyRequests \<or> status \<ge> 500 \<or> status = 0
            then (case routeCache r key of
                    Some cur \<Rightarrow>
                      (if credentialID cur = cid
                       then r\<lparr>routeCache := (routeCache r)(key := None)\<rparr> else r)
                  | None \<Rightarrow> r)
            else r))"

section \<open>Configuration snapshot\<close>

record providerRow =
  provID :: nat
  provType :: string
  provBaseURL :: string
  DefaultHeaders :: "string \<rightharpoonup> string"
  provModelMap :: "string \<rightharpoonup> string"
  provModels :: "string list"

record credentialRow =
  credID :: nat
  credProviderID :: nat
  APIKeyCiphertext :: string
  Weight :: int
  ConcurrencyLimit :: int
  Enabled :: bool

record TierItem =
  itemProviderID :: nat
  itemWeight :: int

record Tier =
  tierName :: string
  tierStrategy :: string
  tierModels :: "string list"
  Items :: "TierItem list"

record poolRow =
  poolID :: nat
  poolName :: string
  ClientKey :: string
  Strategy :: string
  Tiers :: "Tier list"
  CredentialIDs :: "nat list"
  ExpandedCredentialIDs :: "nat list"
  poolModelMap :: "string \<rightharpoonup> string"
  poolEnabled :: bool

text \<open>
  \<open>provModels\<close> lists the keys of the Go map \<open>Models\<close> (a set of model ids); the order of
  the list stands for the iteration order of the map.
\<close>

record loadedConfig =
  providers :: "nat \<rightharpoonup> providerRow"
  credentials :: "nat \<rightharpoonup> credentialRow"
  providerCreds :: "nat \<rightharpoonup> nat list"
  pools :: "nat \<rightharpoonup> poolRow"
  poolByClientKey :: "string \<rightharpoonup> poolRow"

section \<open>Credential score\<close>

definition credentialScore :: "Router \<Rightarrow> nat \<Rightarrow> int \<Rightarrow> real" where
  "credentialScore r cid baseWeight0 =
     (let baseWeight = (if baseWeight0 \<le> 0 then 1 else baseWeight0);
          infl = real_of_int (getInflight r cid)
      in case credState r cid of
           None \<Rightarrow> real_of_int baseWeight / (1 + infl)
         | Some st \<Rightarrow>
             (let health = real (successes st + 1) / real (total st + 2);
                  failPenalty = 1 / (1 + real (failures st));
                  latPenalty = (if ewmaLatency st > 0
                                then 1 / (1 + ewmaLatency st / 2500) else 1);
                  inflightPenalty = 1 / (1 + infl)
              in real_of_int baseWeight * health * failPenalty * latPenalty
                   * inflightPenalty))"

section \<open>Model alias fallback\<close>

definition scoreOf :: "bool \<Rightarrow> string \<Rightarrow> int" where
  "scoreOf isSmall ident =
     (let s = ToLower ident;
          score =
            (if isSmall then
               (if Contains s ''haiku'' then 6 else 0)
               + (if Contains s ''mini'' \<or> Contains s ''small'' then 5 else 0)
               + (if Contains s ''flash'' \<or> Contains s ''lite'' then 4 else 0)
               + (if Contains s ''nano'' then 3 else 0)
               + (if Contains s ''3b'' \<or> Contains s ''4b'' \<or> Contains s ''7b''
                     \<or> Contains s ''8b'' then 2 else 0)
               - (if Contains s ''sonnet'' \<or> Contains s ''opus'' then 3 else 0)
             else
               (if Contains s ''sonnet'' then 6 else 0)
               + (if Contains s ''opus'' then 5 else 0)
               + (if Contains s ''claude'' then 4 else 0)
               + (if Contains s ''gpt-4'' \<or> Contains s ''kimi'' \<or> Contains s ''glm''
                     \<or> Contains s ''deepseek'' then 3 else 0)
               + (if Contains s ''coder'' \<or> Contains s ''code'' then 4 else 0)
               + (if Contains s ''reasoner'' \<or> Contains s ''thinking'' then 2 else 0)
               - (if Contains s ''haiku'' \<or> Contains s ''mini'' \<or> Contains s ''flash''
                     \<or> Contains s ''lite'' then 2 else 0))
      in score - int (minInt (length ident div 12) 6))"

text \<open>The loop over the model ids; \<open>best\<close> is \<open>None\<close> while \<open>found\<close> is false.\<close>

fun bestModel :: "bool \<Rightarrow> string list \<Rightarrow> (string \<times> int) option \<Rightarrow> (string \<times> int) option" where
  "bestModel isSmall [] best = best"
| "bestModel isSmall (ident # ids) best =
     (let sc = scoreOf isSmall ident
      in bestModel isSmall ids
           (case best of
              None \<Rightarrow> Some (ident, sc)
            | Some (bid, bsc) \<Rightarrow>
                (if sc > bsc \<or> (sc = bsc \<and> (length ident < length bid
                       \<or> (length ident = length bid \<and> strLess ident bid)))
                 then Some (ident, sc) else Some (bid, bsc))))"

definition pickModelForAlias :: "string list \<Rightarrow> string \<Rightarrow> string" where
  "pickModelForAlias models alias0 =
     (let alias = ToLower (TrimSpace alias0)
      in if alias = [] \<or> models = [] then []
         else
           (let isSmall = (Contains alias ''small'' \<or> Contains alias ''haiku''
                             \<or> Contains alias ''fast'')
            in case bestModel isSmall models None of
                 None \<Rightarrow> []
               | Some (bid, bsc) \<Rightarrow> bid))"

text \<open>
  The overlay of the two model maps, written twice in the source (in \<open>pickUpstream\<close> and
  in \<open>pickBestKey\<close>): the requested model, replaced by the provider's entry for exactly
  that key when it is not empty, then by the pool's.
\<close>

definition mappedModel :: "providerRow \<Rightarrow> poolRow \<Rightarrow> string \<Rightarrow> string" where
  "mappedModel prov pool model =
     (let up1 = (case provModelMap prov model of
                   Some mapped \<Rightarrow> (if mapped \<noteq> [] then mapped else model)
                 | None \<Rightarrow> model)
      in case poolModelMap pool model of
           Some mapped \<Rightarrow> (if mapped \<noteq> [] then mapped else up1)
         | None \<Rightarrow> up1)"

section \<open>Picking a credential\<close>

definition isAvailable :: "Router \<Rightarrow> loadedConfig \<Rightarrow> nat set \<Rightarrow> instant \<Rightarrow> nat \<Rightarrow> bool" where
  "isAvailable r cfg exclude now cid =
     (if cid \<in> exclude then False
      else case credentials cfg cid of
             None \<Rightarrow> False
           | Some cred \<Rightarrow>
               (if \<not> Enabled cred then False
                else if isCredentialOpen r cid now then False
                else if ConcurrencyLimit cred > 0
                        \<and> getInflight r cid \<ge> ConcurrencyLimit cred then False
                else True))"

text \<open>\<open>atomic.AddUint64(&getPoolState(id).counter, 1)\<close>: the new value and the new router.\<close>

definition nextCount :: "Router \<Rightarrow> nat \<Rightarrow> 64 word \<times> Router" where
  "nextCount r pid =
     (let count = (case poolStates r pid of None \<Rightarrow> 0 | Some c \<Rightarrow> c) + 1
      in (count, r\<lparr>poolStates := (poolStates r)(pid \<mapsto> count)\<rparr>))"

fun bestCred ::
  "Router \<Rightarrow> loadedConfig \<Rightarrow> nat set \<Rightarrow> instant \<Rightarrow> nat list \<Rightarrow> (nat \<times> real) option
     \<Rightarrow> (nat \<times> real) option" where
  "bestCred r cfg exclude now [] best = best"
| "bestCred r cfg exclude now (cid # cids) best =
     (if \<not> isAvailable r cfg exclude now cid then bestCred r cfg exclude now cids best
      else
        (let w = (case credentials cfg cid of Some cred \<Rightarrow> Weight cred | None \<Rightarrow> 0);
             score = credentialScore r cid w
         in bestCred r cfg exclude now cids
              (case best of
                 None \<Rightarrow> Some (cid, score)
               | Some (bid, bscore) \<Rightarrow>
                   (if score > bscore then Some (cid, score) else Some (bid, bscore)))))"

definition pickBestKey ::
  "Router \<Rightarrow> loadedConfig \<Rightarrow> poolRow \<Rightarrow> string \<Rightarrow> nat set \<Rightarrow> instant \<Rightarrow> nat
     \<Rightarrow> (nat \<times> real) option" where
  "pickBestKey r cfg pool model exclude now pid =
     (case providers cfg pid of
        None \<Rightarrow> None
      | Some prov \<Rightarrow>
          (if provModels prov \<noteq> [] \<and> mappedModel prov pool model \<notin> set (provModels prov)
              \<and> pickModelForAlias (provModels prov) model = []
           then None
           else
             (case providerCreds cfg pid of
                None \<Rightarrow> None
              | Some creds \<Rightarrow> bestCred r cfg exclude now creds None)))"

definition tierAppliesToModel :: "Tier \<Rightarrow> string \<Rightarrow> bool" where
  "tierAppliesToModel t model =
     (if tierModels t = [] then True
      else if TrimSpace model = [] then True
      else list_ex (\<lambda>x. EqualFold (TrimSpace x) (TrimSpace model)) (tierModels t))"

fun firstByPriority ::
  "Router \<Rightarrow> loadedConfig \<Rightarrow> poolRow \<Rightarrow> string \<Rightarrow> nat set \<Rightarrow> instant \<Rightarrow> TierItem list
     \<Rightarrow> nat option" where
  "firstByPriority r cfg pool model exclude now [] = None"
| "firstByPriority r cfg pool model exclude now (it # its) =
     (case pickBestKey r cfg pool model exclude now (itemProviderID it) of
        Some (cid, sc) \<Rightarrow> Some cid
      | None \<Rightarrow> firstByPriority r cfg pool model exclude now its)"

fun tierCandidates ::
  "Router \<Rightarrow> loadedConfig \<Rightarrow> poolRow \<Rightarrow> string \<Rightarrow> nat set \<Rightarrow> instant \<Rightarrow> TierItem list
     \<Rightarrow> (nat \<times> real) list" where
  "tierCandidates r cfg pool model exclude now [] = []"
| "tierCandidates r cfg pool model exclude now (it # its) =
     (let w = (if real_of_int (itemWeight it) \<le> 0 then 1 else real_of_int (itemWeight it))
      in case pickBestKey r cfg pool model exclude now (itemProviderID it) of
           None \<Rightarrow> tierCandidates r cfg pool model exclude now its
         | Some (cid, keyScore) \<Rightarrow>
             (cid, w * keyScore) # tierCandidates r cfg pool model exclude now its)"

fun drawCandidate :: "real \<Rightarrow> real \<Rightarrow> (nat \<times> real) list \<Rightarrow> nat option" where
  "drawCandidate pick current [] = None"
| "drawCandidate pick current ((cid, score) # cands) =
     (if pick \<le> current + score then Some cid
      else drawCandidate pick (current + score) cands)"

fun pickFromTiers ::
  "Router \<Rightarrow> loadedConfig \<Rightarrow> poolRow \<Rightarrow> string \<Rightarrow> nat set \<Rightarrow> instant \<Rightarrow> Tier list
     \<Rightarrow> nat option \<times> Router" where
  "pickFromTiers r cfg pool model exclude now [] = (None, r)"
| "pickFromTiers r cfg pool model exclude now (tier # tiers) =
     (if \<not> tierAppliesToModel tier model then pickFromTiers r cfg pool model exclude now tiers
      else if Items tier = [] then pickFromTiers r cfg pool model exclude now tiers
      else if tierStrategy tier = ''priority'' then
        (case firstByPriority r cfg pool model exclude now (Items tier) of
           Some cid \<Rightarrow> (Some cid, r)
         | None \<Rightarrow> pickFromTiers r cfg pool model exclude now tiers)
      else
        (let candidates = tierCandidates r cfg pool model exclude now (Items tier);
             totalWeight = sum_list (map snd candidates)
         in if candidates = [] then pickFromTiers r cfg pool model exclude now tiers
            else if totalWeight \<le> 0 then (Some (fst (hd candidates)), r)
            else
              (let (count, r') = nextCount r (poolID pool);
                   pick = real (unat count mod 1000) / 1000 * totalWeight
               in case drawCandidate pick 0 candidates of
                    Some cid \<Rightarrow> (Some cid, r')
                  | None \<Rightarrow> (Some (fst (last candidates)), r'))))"

text \<open>
  The scan of the legacy path: \<open>for i := 0; i < n; i++\<close> with
  \<open>idx := (count + i) % n\<close> in \<open>uint64\<close> arithmetic.
\<close>

definition scanIndex :: "64 word \<Rightarrow> nat \<Rightarrow> nat \<Rightarrow> nat" where
  "scanIndex count n i = unat ((count + of_nat i) mod (of_nat n :: 64 word))"

fun scanIds :: "(nat \<Rightarrow> bool) \<Rightarrow> nat list \<Rightarrow> 64 word \<Rightarrow> nat list \<Rightarrow> nat option" where
  "scanIds avail ids count [] = None"
| "scanIds avail ids count (i # is) =
     (let cid = ids ! scanIndex count (length ids) i
      in if avail cid then Some cid else scanIds avail ids count is)"

definition pickLegacy ::
  "Router \<Rightarrow> loadedConfig \<Rightarrow> poolRow \<Rightarrow> nat set \<Rightarrow> instant \<Rightarrow> nat option \<times> Router" where
  "pickLegacy r cfg pool exclude now =
     (let ids = (if Strategy pool = ''weighted_rr'' \<and> ExpandedCredentialIDs pool \<noteq> []
                 then ExpandedCredentialIDs pool else CredentialIDs pool)
      in if ids = [] then (None, r)
         else
           (let (count, r') = nextCount r (poolID pool)
            in (scanIds (isAvailable r cfg exclude now) ids count [0..<length ids], r')))"

definition pickCredentialFromPool ::
  "Router \<Rightarrow> loadedConfig \<Rightarrow> poolRow \<Rightarrow> string \<Rightarrow> string \<Rightarrow> nat set \<Rightarrow> instant
     \<Rightarrow> nat option \<times> Router" where
  "pickCredentialFromPool r cfg pool facade model exclude now =
     (let key = routeKey (poolID pool) facade model;
          hit = (case routeCache r key of
                   Some ent \<Rightarrow> Before now (expiresAt ent)
                                \<and> isAvailable r cfg exclude now (credentialID ent)
                 | None \<Rightarrow> False);
          r1 = (case routeCache r key of
                  Some ent \<Rightarrow>
                    (if \<not> Before now (expiresAt ent)
                     then r\<lparr>routeCache := (routeCache r)(key := None)\<rparr> else r)
                | None \<Rightarrow> r)
      in if hit then (map_option credentialID (routeCache r key), r)
         else if Tiers pool \<noteq> [] then
           pickFromTiers r1 cfg pool model exclude now (Tiers pool)
         else pickLegacy r1 cfg pool exclude now)"

section \<open>Picking an upstream\<close>

datatype pickError = ErrNotConfigured | ErrUnauthorized | ErrConfig | ErrDecrypt

record RoutedUpstream =
  PoolID :: nat
  CredentialID :: nat
  ProviderID :: nat
  ProviderType :: string
  BaseURL :: string
  APIKey :: string
  Model :: string
  Headers :: "string \<rightharpoonup> string"
  Timeout :: duration

definition zeroProvider :: providerRow where
  "zeroProvider = \<lparr> provID = 0, provType = [], provBaseURL = [], DefaultHeaders = Map.empty,
                    provModelMap = Map.empty, provModels = [] \<rparr>"

definition zeroCredential :: credentialRow where
  "zeroCredential = \<lparr> credID = 0, credProviderID = 0, APIKeyCiphertext = [], Weight = 0,
                      ConcurrencyLimit = 0, Enabled = False \<rparr>"

text \<open>
  \<open>pickUpstream\<close>. The snapshot is what \<open>getConfig\<close> returned (\<open>None\<close> when loading
  failed) and \<open>decrypt\<close> stands for the cipher. A missing map entry reads as the zero
  value of its row type, as in Go.
\<close>

definition credOf :: "loadedConfig \<Rightarrow> nat \<Rightarrow> credentialRow" where
  "credOf cfg cid = (case credentials cfg cid of Some c \<Rightarrow> c | None \<Rightarrow> zeroCredential)"

definition provOf :: "loadedConfig \<Rightarrow> nat \<Rightarrow> providerRow" where
  "provOf cfg pid = (case providers cfg pid of Some p \<Rightarrow> p | None \<Rightarrow> zeroProvider)"

definition pickUpstream ::
  "(string \<Rightarrow> string option) \<Rightarrow> Router \<Rightarrow> loadedConfig option \<Rightarrow> string \<Rightarrow> string \<Rightarrow> string
     \<Rightarrow> nat set \<Rightarrow> instant \<Rightarrow> (pickError + RoutedUpstream) \<times> Router" where
  "pickUpstream decrypt r cfgRes clientKey facade model exclude now =
     (case cfgRes of
        None \<Rightarrow> (Inl ErrConfig, r)
      | Some cfg \<Rightarrow>
          (if pools cfg = Map.empty \<or> credentials cfg = Map.empty \<or> providers cfg = Map.empty
           then (Inl ErrNotConfigured, r)
           else case poolByClientKey cfg clientKey of
                  None \<Rightarrow> (Inl ErrUnauthorized, r)
                | Some pool \<Rightarrow>
                    (case pickCredentialFromPool r cfg pool facade model exclude now of
                       (None, r1) \<Rightarrow> (Inl ErrNotConfigured, r1)
                     | (Some cid, r1) \<Rightarrow>
                         (let cred = credOf cfg cid;
                              prov = provOf cfg (credProviderID cred)
                          in case decrypt (APIKeyCiphertext cred) of
                               None \<Rightarrow> (Inl ErrDecrypt, r1)
                             | Some apiKey \<Rightarrow>
                                 (let up0 = mappedModel prov pool model;
                                      fb = pickModelForAlias (provModels prov) model;
                                      upModel =
                                        (if provModels prov \<noteq> []
                                            \<and> up0 \<notin> set (provModels prov) \<and> fb \<noteq> []
                                         then fb else up0)
                                  in (Inr \<lparr> PoolID = poolID pool, CredentialID = cid,
                                            ProviderID = credProviderID cred,
                                            ProviderType = provType prov,
                                            BaseURL = provBaseURL prov, APIKey = apiKey,
                                            Model = upModel,
                                            Headers = DefaultHeaders prov,
                                            Timeout = 30 * int Second \<rparr>,
                                      startRequest r1 cid))))))"

section \<open>Orchestrator of the Anthropic facade\<close>

text \<open>
  \<open>createMessage\<close> talks to the outside world; what the world answers in one pass of the
  retry loop is an \<open>attempt\<close>: the clock readings (the instant of the pick, and the
  instant and elapsed time seen by the calls that end the attempt), the upstream's reply,
  and whether the JSON encoding of the request, the conversion of the request, the copy
  or transcoding of the stream and the decoding of the reply failed.
\<close>

datatype upstreamReply = TransportError | Reply int

record attempt =
  pickedAt :: instant
  endedAt :: instant
  elapsed :: duration
  marshalFails :: bool
  convertFails :: bool
  reply :: upstreamReply
  streamFails :: bool
  decodeFails :: bool

text \<open>The calls the handler makes on the router, in order, and the status it writes.\<close>

datatype routerCall =
    Picked nat
  | Ended nat bool int
  | Recorded nat string string nat bool int

record outcome =
  router :: Router
  calls :: "routerCall list"
  written :: "int option"

record messageRequest =
  reqModel :: string
  MaxTokens :: int
  Stream :: bool

definition FacadeAnthropic :: string where
  "FacadeAnthropic = ''anthropic''"

definition mapStatusToAnthropic :: "int \<Rightarrow> int" where
  "mapStatusToAnthropic upstreamStatus =
     (if upstreamStatus = StatusTooManyRequests then 429
      else if upstreamStatus = StatusUnauthorized \<or> upstreamStatus = StatusForbidden then 401
      else if upstreamStatus \<ge> 400 \<and> upstreamStatus < 500 then 400
      else 502)"

definition answered :: "Router \<Rightarrow> routerCall list \<Rightarrow> int \<Rightarrow> outcome" where
  "answered r tr code = \<lparr> router = r, calls = tr, written = Some code \<rparr>"

text \<open>\<open>h.rtr.EndRequest\<close> and \<open>h.rtr.RecordRouteResult\<close> at the end of an attempt.\<close>

definition endCall ::
  "attempt \<Rightarrow> RoutedUpstream \<Rightarrow> bool \<Rightarrow> int \<Rightarrow> Router \<times> routerCall list
     \<Rightarrow> Router \<times> routerCall list" where
  "endCall a up ok status = (\<lambda>(r, tr).
     (EndRequest r (CredentialID up) ok status (elapsed a) (endedAt a),
      tr @ [Ended (CredentialID up) ok status]))"

definition recordCall ::
  "attempt \<Rightarrow> RoutedUpstream \<Rightarrow> string \<Rightarrow> bool \<Rightarrow> int \<Rightarrow> Router \<times> routerCall list
     \<Rightarrow> Router \<times> routerCall list" where
  "recordCall a up origModel ok status = (\<lambda>(r, tr).
     (RecordRouteResult r (PoolID up) FacadeAnthropic origModel (CredentialID up) ok status
        (endedAt a),
      tr @ [Recorded (PoolID up) FacadeAnthropic origModel (CredentialID up) ok status]))"

definition respond :: "Router \<times> routerCall list \<Rightarrow> int \<Rightarrow> outcome" where
  "respond = (\<lambda>(r, tr) code. answered r tr code)"

text \<open>
  The retry loop \<open>for attempt := 0; attempt < maxAttempts; attempt++\<close>. The first
  argument of \<open>attempts\<close> counts the passes that remain, so \<open>attempt + 1 < maxAttempts\<close>
  is \<open>k > 0\<close> in the pass with \<open>Suc k\<close> remaining; \<open>continue\<close> is the recursive call.
  \<open>model\<close> is \<open>req.Model\<close>, which the passthrough branch overwrites.
\<close>

fun attempts ::
  "(string \<Rightarrow> string option) \<Rightarrow> loadedConfig option \<Rightarrow> string \<Rightarrow> string \<Rightarrow> bool
     \<Rightarrow> (nat \<Rightarrow> attempt) \<Rightarrow> nat \<Rightarrow> nat \<Rightarrow> string \<Rightarrow> nat set \<Rightarrow> Router \<Rightarrow> routerCall list
     \<Rightarrow> outcome" where
  "attempts decrypt cfg clientKey origModel stream env 0 n model exclude r tr =
     \<lparr> router = r, calls = tr, written = None \<rparr>"
| "attempts decrypt cfg clientKey origModel stream env (Suc k) n model exclude r tr =
     (let a = env n
      in case pickUpstream decrypt r cfg clientKey FacadeAnthropic model
                (if n = 0 then {} else exclude) (pickedAt a) of
           (Inl err, r1) \<Rightarrow>
             (if err = ErrNotConfigured then answered r1 tr 503 else answered r1 tr 502)
         | (Inr up, r1) \<Rightarrow>
             (let s0 = (r1, tr @ [Picked (CredentialID up)]);
                  cid = CredentialID up
              in if ProviderType up = ''anthropic'' then
                   (let rewrite = (TrimSpace (Model up) \<noteq> [] \<and> Model up \<noteq> model);
                        model' = (if rewrite then Model up else model)
                    in if rewrite \<and> marshalFails a then respond (endCall a up False 0 s0) 500
                       else
                         (case reply a of
                            TransportError \<Rightarrow>
                              (let s1 = endCall a up False 0 s0
                               in if k > 0
                                  then attempts decrypt cfg clientKey origModel stream env k
                                         (Suc n) model' (insert cid exclude) (fst s1) (snd s1)
                                  else respond s1 502)
                          | Reply status \<Rightarrow>
                              (let ok = (status < 500 \<and> status \<noteq> StatusTooManyRequests);
                                   s1 = (if \<not> ok then endCall a up False status s0 else s0)
                               in if \<not> ok \<and> k > 0
                                  then attempts decrypt cfg clientKey origModel stream env k
                                         (Suc n) model' (insert cid exclude) (fst s1) (snd s1)
                                  else if stream then
                                    (let okFinal = (\<not> streamFails a \<and> ok)
                                     in respond (recordCall a up origModel okFinal status
                                                (endCall a up okFinal status s1)) status)
                                  else
                                    respond (recordCall a up origModel ok status
                                            (endCall a up ok status s1)) status)))
                 else if ProviderType up = ''openai'' then
                   (if convertFails a then respond (endCall a up False 0 s0) 400
                    else if marshalFails a then respond (endCall a up False 0 s0) 500
                    else
                      (case reply a of
                         TransportError \<Rightarrow>
                           (let s1 = endCall a up False 0 s0
                            in if k > 0
                               then attempts decrypt cfg clientKey origModel stream env k
                                      (Suc n) model (insert cid exclude) (fst s1) (snd s1)
                               else respond s1 502)
                       | Reply status \<Rightarrow>
                           (let ok = (status < 500 \<and> status \<noteq> StatusTooManyRequests)
                            in if status < 200 \<or> status \<ge> 300 then
                                 (let s1 = endCall a up False status s0
                                  in if \<not> ok \<and> k > 0
                                     then attempts decrypt cfg clientKey origModel stream env k
                                            (Suc n) model (insert cid exclude) (fst s1) (snd s1)
                                     else respond s1 (mapStatusToAnthropic status))
                               else if stream then
                                 (let okFinal = (\<not> streamFails a \<and> ok)
                                  in respond (recordCall a up origModel okFinal status
                                             (endCall a up okFinal status s0)) 200)
                               else if decodeFails a
                               then respond (endCall a up False status s0) 502
                               else respond (recordCall a up origModel True status
                                            (endCall a up True status s0)) 200)))
                 else if ProviderType up = ''gemini'' then
                   (if stream then respond (endCall a up False 0 s0) 501
                    else if marshalFails a then respond (endCall a up False 0 s0) 500
                    else
                      (case reply a of
                         TransportError \<Rightarrow>
                           (let s1 = endCall a up False 0 s0
                            in if k > 0
                               then attempts decrypt cfg clientKey origModel stream env k
                                      (Suc n) model (insert cid exclude) (fst s1) (snd s1)
                               else respond s1 502)
                       | Reply status \<Rightarrow>
                           (let ok = (status < 500 \<and> status \<noteq> StatusTooManyRequests)
                            in if status < 200 \<or> status \<ge> 300 then
                                 (let s1 = endCall a up False status s0
                                  in if \<not> ok \<and> k > 0
                                     then attempts decrypt cfg clientKey origModel stream env k
                                            (Suc n) model (insert cid exclude) (fst s1) (snd s1)
                                     else respond s1 (mapStatusToAnthropic status))
                               else if decodeFails a
                               then respond (endCall a up False status s0) 502
                               else respond (recordCall a up origModel True status
                                            (endCall a up True status s0)) 200)))
                 else respond (endCall a up False 0 s0) 501))"

text \<open>
  \<open>createMessage\<close>: \<open>None\<close> stands for a body that cannot be read or is not JSON; the
  request is refused before any pick when the model is blank or \<open>max_tokens\<close> is not
  positive.
\<close>

definition createMessage ::
  "(string \<Rightarrow> string option) \<Rightarrow> loadedConfig option \<Rightarrow> string \<Rightarrow> messageRequest option
     \<Rightarrow> (nat \<Rightarrow> attempt) \<Rightarrow> Router \<Rightarrow> outcome" where
  "createMessage decrypt cfg clientKey body env r =
     (case body of
        None \<Rightarrow> answered r [] 400
      | Some req \<Rightarrow>
          (if TrimSpace (reqModel req) = [] \<or> MaxTokens req \<le> 0 then answered r [] 400
           else attempts decrypt cfg clientKey (reqModel req) (Stream req) env
                  (if \<not> Stream req then 2 else 1) 0 (reqModel req) {} r []))"

section \<open>Dynamic JSON values\<close>

text \<open>
  What \<open>encoding/json\<close> decodes into \<open>any\<close> and what the converters build: \<open>nil\<close>,
  booleans, numbers (idealised as integers: the code reads numbers only as block
  indices), strings, \<open>[]any\<close>, \<open>map[string]any\<close> (an association list, read with
  \<open>map_of\<close>) and \<open>[]map[string]any\<close>, which Go keeps apart from \<open>[]any\<close> in a type
  assertion.
\<close>

datatype jv =
    JNull
  | JBool bool
  | JNum int
  | JStr string
  | JArr "jv list"
  | JObj "(string \<times> jv) list"
  | JMaps "(string \<times> jv) list list"

type_synonym jobject = "(string \<times> jv) list"

text \<open>\<open>m[key]\<close> on a map that may be \<open>nil\<close> (\<open>None\<close>): a missing key reads as \<open>nil\<close>.\<close>

definition field :: "jobject option \<Rightarrow> string \<Rightarrow> jv" where
  "field m key = (case m of
                    None \<Rightarrow> JNull
                  | Some kvs \<Rightarrow> (case map_of kvs key of Some v \<Rightarrow> v | None \<Rightarrow> JNull))"

text \<open>The type assertions \<open>v.(string)\<close>, \<open>v.(map[string]any)\<close>, \<open>v.([]any)\<close>, \<open>v.(float64)\<close>.\<close>

definition asString :: "jv \<Rightarrow> string option" where
  "asString v = (case v of JStr s \<Rightarrow> Some s | _ \<Rightarrow> None)"

definition asObject :: "jv \<Rightarrow> jobject option" where
  "asObject v = (case v of JObj kvs \<Rightarrow> Some kvs | _ \<Rightarrow> None)"

definition asArray :: "jv \<Rightarrow> jv list option" where
  "asArray v = (case v of JArr xs \<Rightarrow> Some xs | _ \<Rightarrow> None)"


text \<open>\<open>s, _ := v.(string)\<close>: the empty string when the assertion fails.\<close>

definition stringOr :: "jv \<Rightarrow> string" where
  "stringOr v = (case asString v of Some s \<Rightarrow> s | None \<Rightarrow> [])"


section \<open>Reading server-sent events\<close>






fun joinLF :: "string list \<Rightarrow> string" where
  "joinLF [] = []"
| "joinLF [s] = s"
| "joinLF (s # t # ss) = s @ [CHR 0x0A] @ joinLF (t # ss)"


section \<open>Stream transcoders\<close>



subsection \<open>OpenAI stream to Anthropic stream\<close>
















subsection \<open>Anthropic stream to OpenAI stream\<close>











section \<open>Response conversion\<close>



record OpenAIFunction =
  fnName :: string
  Arguments :: string

record OpenAIToolCall =
  tcID :: string
  tcType :: string
  Function :: OpenAIFunction

record OpenAIChatMessage =
  msgRole :: string
  msgContent :: jv
  ToolCalls :: "OpenAIToolCall list"

record OpenAIChatChoice =
  Index :: int
  Message :: OpenAIChatMessage
  FinishReason :: string









section \<open>Request conversion\<close>

text \<open>
  A \<open>json.RawMessage\<close> is modelled by the value its bytes encode: it is empty, holds
  well-formed JSON, or holds bytes that are not JSON.
\<close>

datatype rawMessage = RawEmpty | RawJSON jv | RawInvalid

record ToolDefinition =
  toolName :: string
  Description :: string
  InputSchema :: rawMessage

record Message =
  Role :: string
  Content :: jv

text \<open>
  \<open>MessageCreateRequest\<close> and \<open>ChatCompletionsRequest\<close>, without the fields that no
  converter reads (\<open>metadata\<close>, \<open>stop_sequences\<close>).
\<close>

record MessageCreateRequest =
  mcModel :: string
  mcMaxTokens :: int
  Messages :: "Message list"
  System :: jv
  Temperature :: "real option"
  TopP :: "real option"
  mcStream :: bool
  Tools :: "ToolDefinition list"
  ToolChoice :: rawMessage

record ChatCompletionsRequest =
  ccModel :: string
  ccMessages :: jv
  ccMaxTokens :: "int option"
  ccTemperature :: "real option"
  ccTopP :: "real option"
  ccStream :: bool
  ccTools :: rawMessage
  ccToolChoice :: rawMessage

datatype convertError =
    ErrUnsupportedMessageShape
  | ErrUnsupportedContentPart
  | ErrInvalidToolArguments
  | ErrInvalidJSON

text \<open>
  A loop that converts the elements of a slice one by one and returns the first error:
  the list of the results when every element converts.
\<close>

fun traverse :: "('a \<Rightarrow> 'e + 'b) \<Rightarrow> 'a list \<Rightarrow> 'e + 'b list" where
  "traverse f [] = Inr []"
| "traverse f (x # xs) =
     (case f x of
        Inl e \<Rightarrow> Inl e
      | Inr y \<Rightarrow> (case traverse f xs of Inl e \<Rightarrow> Inl e | Inr ys \<Rightarrow> Inr (y # ys)))"

definition stringifyJSONish :: "(jv \<Rightarrow> string) \<Rightarrow> jv \<Rightarrow> string" where
  "stringifyJSONish marshal v = (case v of JNull \<Rightarrow> [] | JStr t \<Rightarrow> t | _ \<Rightarrow> marshal v)"

definition textOfBlock :: "jobject \<Rightarrow> string" where
  "textOfBlock m =
     (if field (Some m) ''type'' = JStr ''text''
      then (case asString (field (Some m) ''text'') of Some s \<Rightarrow> s | None \<Rightarrow> [])
      else [])"

definition anthropicToolResultContentToText :: "jv \<Rightarrow> string" where
  "anthropicToolResultContentToText v =
     (case v of
        JStr t \<Rightarrow> t
      | JArr items \<Rightarrow>
          concat (map (\<lambda>it. case asObject it of Some m \<Rightarrow> textOfBlock m | None \<Rightarrow> []) items)
      | JMaps ms \<Rightarrow> concat (map textOfBlock ms)
      | _ \<Rightarrow> [])"

definition anthropicImageBlockToOpenAIContentPart :: "jobject \<Rightarrow> convertError + jv" where
  "anthropicImageBlockToOpenAIContentPart blk =
     (case asObject (field (Some blk) ''source'') of
        None \<Rightarrow> Inl ErrUnsupportedContentPart
      | Some src \<Rightarrow>
          (let st = TrimSpace (stringOr (field (Some src) ''type''))
           in if st = ''base64'' then
                (let mediaType = TrimSpace (stringOr (field (Some src) ''media_type''));
                     dat = TrimSpace (stringOr (field (Some src) ''data''))
                 in if mediaType = [] \<or> dat = [] then Inl ErrUnsupportedContentPart
                    else Inr (JObj [(''type'', JStr ''image_url''),
                                    (''image_url'',
                                     JObj [(''url'', JStr (''data:'' @ mediaType
                                                           @ '';base64,'' @ dat))])]))
              else if st = ''url'' then
                (let u = TrimSpace (stringOr (field (Some src) ''url''))
                 in if u = [] then Inl ErrUnsupportedContentPart
                    else if \<not> (HasPrefix u ''data:image/'' \<or> HasPrefix u ''https://'')
                    then Inl ErrUnsupportedContentPart
                    else Inr (JObj [(''type'', JStr ''image_url''),
                                    (''image_url'', JObj [(''url'', JStr u)])]))
              else Inl ErrUnsupportedContentPart))"

definition anthropicContentToBlocks :: "jv \<Rightarrow> convertError + jobject list" where
  "anthropicContentToBlocks cont =
     (case cont of
        JNull \<Rightarrow> Inr []
      | JStr v \<Rightarrow>
          (if TrimSpace v = [] then Inr []
           else Inr [[(''type'', JStr ''text''), (''text'', JStr v)]])
      | JArr items \<Rightarrow>
          traverse (\<lambda>it. case asObject it of
                            Some m \<Rightarrow> Inr m
                          | None \<Rightarrow> Inl ErrUnsupportedMessageShape) items
      | JMaps ms \<Rightarrow> Inr ms
      | _ \<Rightarrow> Inl ErrUnsupportedContentPart)"

text \<open>
  What one content block adds to the variables of the loop in
  \<open>anthropicMessageToOpenAIMessages\<close>: a text part, a reasoning part, a tool call, a
  tool message, an image part or nothing.
\<close>

datatype blockPart =
    TextPart string
  | ReasoningPart string
  | ToolCallPart jobject
  | ToolMessagePart jobject
  | ImagePart jv
  | NoPart

definition blockToPart :: "(jv \<Rightarrow> string) \<Rightarrow> jobject \<Rightarrow> convertError + blockPart" where
  "blockToPart marshal blk =
     (let typ = stringOr (field (Some blk) ''type'')
      in if typ = ''text'' then
           (case asString (field (Some blk) ''text'') of
              Some t \<Rightarrow> (if t \<noteq> [] then Inr (TextPart t) else Inr NoPart)
            | None \<Rightarrow> Inr NoPart)
         else if typ = ''thinking'' then
           (case asString (field (Some blk) ''thinking'') of
              Some t \<Rightarrow> (if t \<noteq> [] then Inr (ReasoningPart t) else Inr NoPart)
            | None \<Rightarrow> Inr NoPart)
         else if typ = ''tool_use'' then
           (let ident = stringOr (field (Some blk) ''id'');
                name = stringOr (field (Some blk) ''name'')
            in if TrimSpace ident = [] \<or> TrimSpace name = []
               then Inl ErrUnsupportedMessageShape
               else Inr (ToolCallPart
                           [(''id'', JStr ident), (''type'', JStr ''function''),
                            (''function'',
                             JObj [(''name'', JStr name),
                                   (''arguments'',
                                    JStr (marshal (field (Some blk) ''input'')))])]))
         else if typ = ''tool_result'' then
           (let toolUseID = stringOr (field (Some blk) ''tool_use_id'')
            in if TrimSpace toolUseID = [] then Inl ErrUnsupportedMessageShape
               else
                 (let c0 = anthropicToolResultContentToText (field (Some blk) ''content'');
                      c = (if TrimSpace c0 = []
                           then stringifyJSONish marshal (field (Some blk) ''content'')
                           else c0)
                  in Inr (ToolMessagePart
                            [(''role'', JStr ''tool''), (''tool_call_id'', JStr toolUseID),
                             (''content'', JStr c)])))
         else if typ = ''image'' then
           (case anthropicImageBlockToOpenAIContentPart blk of
              Inl e \<Rightarrow> Inl e
            | Inr part \<Rightarrow> Inr (ImagePart part))
         else Inl ErrUnsupportedContentPart)"

definition textParts :: "blockPart list \<Rightarrow> string list" where
  "textParts ps = concat (map (\<lambda>p. case p of TextPart t \<Rightarrow> [t] | _ \<Rightarrow> []) ps)"

definition reasoningParts :: "blockPart list \<Rightarrow> string list" where
  "reasoningParts ps = concat (map (\<lambda>p. case p of ReasoningPart t \<Rightarrow> [t] | _ \<Rightarrow> []) ps)"

definition contentParts :: "blockPart list \<Rightarrow> jv list" where
  "contentParts ps =
     concat (map (\<lambda>p. case p of
                         TextPart t \<Rightarrow> [JObj [(''type'', JStr ''text''), (''text'', JStr t)]]
                       | ImagePart part \<Rightarrow> [part]
                       | _ \<Rightarrow> []) ps)"

definition hasNonText :: "blockPart list \<Rightarrow> bool" where
  "hasNonText ps = list_ex (\<lambda>p. case p of ImagePart part \<Rightarrow> True | _ \<Rightarrow> False) ps"

definition toolCalls :: "blockPart list \<Rightarrow> jobject list" where
  "toolCalls ps = concat (map (\<lambda>p. case p of ToolCallPart c \<Rightarrow> [c] | _ \<Rightarrow> []) ps)"

definition toolMessages :: "blockPart list \<Rightarrow> jobject list" where
  "toolMessages ps = concat (map (\<lambda>p. case p of ToolMessagePart m \<Rightarrow> [m] | _ \<Rightarrow> []) ps)"

definition anthropicMessageToOpenAIMessages ::
  "(jv \<Rightarrow> string) \<Rightarrow> Message \<Rightarrow> convertError + jobject list" where
  "anthropicMessageToOpenAIMessages marshal m =
     (let role = TrimSpace (Role m)
      in if role = [] then Inl ErrUnsupportedMessageShape
         else case anthropicContentToBlocks (Content m) of
                Inl e \<Rightarrow> Inl e
              | Inr blocks \<Rightarrow>
                  (case traverse (blockToPart marshal) blocks of
                     Inl e \<Rightarrow> Inl e
                   | Inr ps \<Rightarrow>
                       (let cont = (if hasNonText ps then JArr (contentParts ps)
                                       else JStr (concat (textParts ps)))
                        in if role = ''user'' then
                             Inr ([(''role'', JStr ''user''), (''content'', cont)]
                                  # toolMessages ps)
                           else if role = ''assistant'' then
                             Inr (([(''role'', JStr ''assistant''), (''content'', cont)]
                                   @ (if reasoningParts ps \<noteq> []
                                      then [(''reasoning_content'',
                                             JStr (concat (reasoningParts ps)))]
                                      else [])
                                   @ (if toolCalls ps \<noteq> []
                                      then [(''tool_calls'', JMaps (toolCalls ps))]
                                      else []))
                                  # toolMessages ps)
                           else Inl ErrUnsupportedMessageShape)))"

definition anthropicToolToOpenAI :: "ToolDefinition \<Rightarrow> convertError + jobject" where
  "anthropicToolToOpenAI t =
     (if TrimSpace (toolName t) = [] then Inl ErrUnsupportedMessageShape
      else case InputSchema t of
             RawInvalid \<Rightarrow> Inl ErrInvalidJSON
           | RawJSON params \<Rightarrow>
               Inr [(''type'', JStr ''function''),
                    (''function'', JObj [(''name'', JStr (toolName t)),
                                         (''description'', JStr (Description t)),
                                         (''parameters'', params)])]
           | RawEmpty \<Rightarrow>
               Inr [(''type'', JStr ''function''),
                    (''function'',
                     JObj [(''name'', JStr (toolName t)),
                           (''description'', JStr (Description t)),
                           (''parameters'', JObj [(''type'', JStr ''object''),
                                                  (''properties'', JObj [])])])])"

definition anthropicToolsToOpenAIToolsRaw ::
  "ToolDefinition list \<Rightarrow> convertError + rawMessage" where
  "anthropicToolsToOpenAIToolsRaw tools =
     (if tools = [] then Inr RawEmpty
      else case traverse anthropicToolToOpenAI tools of
             Inl e \<Rightarrow> Inl e
           | Inr out \<Rightarrow> Inr (RawJSON (JMaps out)))"

definition anthropicToolChoiceToOpenAIToolChoiceRaw ::
  "rawMessage \<Rightarrow> convertError + rawMessage" where
  "anthropicToolChoiceToOpenAIToolChoiceRaw raw =
     (case raw of
        RawEmpty \<Rightarrow> Inr RawEmpty
      | RawInvalid \<Rightarrow> Inl ErrInvalidJSON
      | RawJSON j \<Rightarrow>
          (if j \<noteq> JNull \<and> asObject j = None then Inl ErrInvalidJSON
           else
             (let v = asObject j;
                  typ = stringOr (field v ''type'')
              in if typ = ''auto'' then Inr (RawJSON (JStr ''auto''))
                 else if typ = ''none'' then Inr (RawJSON (JStr ''none''))
                 else if typ = ''any'' then Inr (RawJSON (JStr ''required''))
                 else if typ = ''tool'' then
                   (let name = stringOr (field v ''name'')
                    in if TrimSpace name = [] then Inl ErrUnsupportedMessageShape
                       else Inr (RawJSON (JObj [(''type'', JStr ''function''),
                                                (''function'',
                                                 JObj [(''name'', JStr name)])])))
                 else Inl ErrUnsupportedMessageShape)))"

definition AnthropicToOpenAIChatRequest ::
  "(jv \<Rightarrow> string) \<Rightarrow> MessageCreateRequest \<Rightarrow> convertError + ChatCompletionsRequest" where
  "AnthropicToOpenAIChatRequest marshal ar =
     (let systemText = (case System ar of JStr v \<Rightarrow> v | JNull \<Rightarrow> [] | v \<Rightarrow> marshal v);
          sysMsgs = (if TrimSpace systemText \<noteq> []
                     then [[(''role'', JStr ''system''), (''content'', JStr systemText)]]
                     else [])
      in case traverse (anthropicMessageToOpenAIMessages marshal) (Messages ar) of
           Inl e \<Rightarrow> Inl e
         | Inr msgs \<Rightarrow>
             (case anthropicToolsToOpenAIToolsRaw (Tools ar) of
                Inl e \<Rightarrow> Inl e
              | Inr toolDefs \<Rightarrow>
                  (case anthropicToolChoiceToOpenAIToolChoiceRaw (ToolChoice ar) of
                     Inl e \<Rightarrow> Inl e
                   | Inr toolChoice \<Rightarrow>
                       Inr \<lparr> ccModel = mcModel ar,
                             ccMessages = JMaps (sysMsgs @ concat msgs),
                             ccMaxTokens = Some (mcMaxTokens ar),
                             ccTemperature = Temperature ar, ccTopP = TopP ar,
                             ccStream = mcStream ar, ccTools = toolDefs,
                             ccToolChoice = toolChoice \<rparr>)))"

subsection \<open>From OpenAI to Anthropic\<close>

definition HasSuffix :: "string \<Rightarrow> string \<Rightarrow> bool" where
  "HasSuffix s suffix = HasPrefix (rev s) (rev suffix)"

text \<open>\<open>parseDataImageURL\<close>; \<open>strings.SplitN(u, ",", 2)\<close> cuts at the first comma.\<close>

definition parseDataImageURL :: "string \<Rightarrow> (string \<times> string) option" where
  "parseDataImageURL u0 =
     (let u = TrimSpace u0
      in if \<not> HasPrefix u ''data:image/'' then None
         else if CHR '','' \<notin> set u then None
         else
           (let meta = takeWhile (\<lambda>c. c \<noteq> CHR '','') u;
                dat = tl (dropWhile (\<lambda>c. c \<noteq> CHR '','') u)
            in if \<not> Contains meta '';base64'' then None
               else
                 (let mt0 = (if HasPrefix meta ''data:'' then drop 5 meta else meta);
                      mt1 = (if HasSuffix mt0 '';base64''
                             then take (length mt0 - 7) mt0 else mt0);
                      mt = TrimSpace mt1
                  in if mt = [] \<or> dat = [] then None else Some (mt, dat))))"

definition openAIContentPartToBlock :: "jv \<Rightarrow> convertError + jobject list" where
  "openAIContentPartToBlock it =
     (case asObject it of
        None \<Rightarrow> Inl ErrUnsupportedContentPart
      | Some m \<Rightarrow>
          (let typ = stringOr (field (Some m) ''type'')
           in if typ = ''text'' then
                (let t = stringOr (field (Some m) ''text'')
                 in if t = [] then Inr []
                    else Inr [[(''type'', JStr ''text''), (''text'', JStr t)]])
              else if typ = ''image_url'' then
                (let u = stringOr (field (asObject (field (Some m) ''image_url'')) ''url'')
                 in if TrimSpace u = [] then Inl ErrUnsupportedContentPart
                    else case parseDataImageURL u of
                           Some (mediaType, dat) \<Rightarrow>
                             Inr [[(''type'', JStr ''image''),
                                   (''source'', JObj [(''type'', JStr ''base64''),
                                                      (''media_type'', JStr mediaType),
                                                      (''data'', JStr dat)])]]
                         | None \<Rightarrow>
                             (if HasPrefix (TrimSpace u) ''https://''
                              then Inr [[(''type'', JStr ''image''),
                                         (''source'', JObj [(''type'', JStr ''url''),
                                                            (''url'', JStr u)])]]
                              else Inl ErrUnsupportedContentPart))
              else Inl ErrUnsupportedContentPart))"

definition openAIMessageContentToAnthropicBlocks :: "jv \<Rightarrow> convertError + jobject list" where
  "openAIMessageContentToAnthropicBlocks cont =
     (case cont of
        JNull \<Rightarrow> Inr []
      | JStr v \<Rightarrow>
          (if TrimSpace v = [] then Inr []
           else Inr [[(''type'', JStr ''text''), (''text'', JStr v)]])
      | JArr items \<Rightarrow>
          (case traverse openAIContentPartToBlock items of
             Inl e \<Rightarrow> Inl e
           | Inr bs \<Rightarrow> Inr (concat bs))
      | _ \<Rightarrow> Inl ErrUnsupportedContentPart)"

definition openAIToolCallToBlock :: "(string \<Rightarrow> jv option) \<Rightarrow> jv \<Rightarrow> convertError + jobject" where
  "openAIToolCallToBlock unmarshal it =
     (case asObject it of
        None \<Rightarrow> Inl ErrUnsupportedMessageShape
      | Some m \<Rightarrow>
          (let ident = stringOr (field (Some m) ''id'');
               typ = stringOr (field (Some m) ''type'');
               fn = asObject (field (Some m) ''function'');
               name = stringOr (field fn ''name'');
               args = stringOr (field fn ''arguments'')
           in if TrimSpace ident = [] \<or> TrimSpace name = []
              then Inl ErrUnsupportedMessageShape
              else if typ \<noteq> [] \<and> typ \<noteq> ''function'' then Inl ErrUnsupportedMessageShape
              else case (if TrimSpace args = [] then Some (JObj []) else unmarshal args) of
                     None \<Rightarrow> Inl ErrInvalidToolArguments
                   | Some input \<Rightarrow>
                       Inr [(''type'', JStr ''tool_use''), (''id'', JStr ident),
                            (''name'', JStr name), (''input'', input)]))"

definition openAIToolCallsToAnthropicBlocks ::
  "(string \<Rightarrow> jv option) \<Rightarrow> jv \<Rightarrow> convertError + jobject list" where
  "openAIToolCallsToAnthropicBlocks unmarshal v =
     (case v of
        JNull \<Rightarrow> Inr []
      | JArr raw \<Rightarrow> traverse (openAIToolCallToBlock unmarshal) raw
      | _ \<Rightarrow> Inl ErrUnsupportedMessageShape)"

text \<open>
  One pass of the loop over the OpenAI messages: a part of the system text, or a message.
\<close>

datatype converted = SystemPart string | Converted Message

definition openAIMessageToAnthropic ::
  "(jv \<Rightarrow> string) \<Rightarrow> (string \<Rightarrow> jv option) \<Rightarrow> jv \<Rightarrow> convertError + converted" where
  "openAIMessageToAnthropic marshal unmarshal raw =
     (case asObject raw of
        None \<Rightarrow> Inl ErrUnsupportedMessageShape
      | Some m \<Rightarrow>
          (let role = TrimSpace (stringOr (field (Some m) ''role''))
           in if role = [] then Inl ErrUnsupportedMessageShape
              else if role = ''system''
              then Inr (SystemPart (stringifyJSONish marshal (field (Some m) ''content'')))
              else if role = ''user'' \<or> role = ''assistant'' then
                (case openAIMessageContentToAnthropicBlocks (field (Some m) ''content'') of
                   Inl e \<Rightarrow> Inl e
                 | Inr contentBlocks \<Rightarrow>
                     (case openAIToolCallsToAnthropicBlocks unmarshal
                             (field (Some m) ''tool_calls'') of
                        Inl e \<Rightarrow> Inl e
                      | Inr toolUseBlocks \<Rightarrow>
                          Inr (Converted \<lparr> Role = role,
                                 Content = JMaps (contentBlocks @ toolUseBlocks) \<rparr>)))
              else if role = ''tool'' then
                (let toolCallID = TrimSpace (stringOr (field (Some m) ''tool_call_id''))
                 in if toolCallID = [] then Inl ErrUnsupportedMessageShape
                    else Inr (Converted \<lparr> Role = ''user'',
                           Content = JMaps [[(''type'', JStr ''tool_result''),
                                             (''tool_use_id'', JStr toolCallID),
                                             (''content'',
                                              JStr (stringifyJSONish marshal
                                                      (field (Some m) ''content''))),
                                             (''is_error'', JBool False)]] \<rparr>))
              else Inl ErrUnsupportedMessageShape))"

text \<open>
  Decoding into \<open>[]openAIToolDef\<close>: a string field accepts a string or \<open>null\<close>, a
  struct field an object or \<open>null\<close>, and \<open>parameters\<close> keeps the raw value.
\<close>

definition structString :: "jv \<Rightarrow> string option" where
  "structString v = (case v of JNull \<Rightarrow> Some [] | JStr s \<Rightarrow> Some s | _ \<Rightarrow> None)"

definition structObject :: "jv \<Rightarrow> jobject option option" where
  "structObject v = (case v of JNull \<Rightarrow> Some None | JObj kvs \<Rightarrow> Some (Some kvs) | _ \<Rightarrow> None)"

definition openAIToolToAnthropic :: "jv \<Rightarrow> convertError + ToolDefinition" where
  "openAIToolToAnthropic it =
     (case structObject it of
        None \<Rightarrow> Inl ErrInvalidJSON
      | Some t \<Rightarrow>
          (case (structString (field t ''type''), structObject (field t ''function'')) of
             (Some typ, Some fn) \<Rightarrow>
               (case (structString (field fn ''name''),
                      structString (field fn ''description'')) of
                  (Some name, Some description) \<Rightarrow>
                    (if typ \<noteq> [] \<and> typ \<noteq> ''function'' then Inl ErrUnsupportedContentPart
                     else if TrimSpace name = [] then Inl ErrUnsupportedContentPart
                     else Inr \<lparr> toolName = name, Description = description,
                                InputSchema = (case field fn ''parameters'' of
                                                 JNull \<Rightarrow> RawEmpty
                                               | v \<Rightarrow> RawJSON v) \<rparr>)
                | _ \<Rightarrow> Inl ErrInvalidJSON)
           | _ \<Rightarrow> Inl ErrInvalidJSON))"

definition openAIToolsToAnthropicTools :: "rawMessage \<Rightarrow> convertError + ToolDefinition list" where
  "openAIToolsToAnthropicTools raw =
     (case raw of
        RawEmpty \<Rightarrow> Inr []
      | RawInvalid \<Rightarrow> Inl ErrInvalidJSON
      | RawJSON JNull \<Rightarrow> Inr []
      | RawJSON (JArr tools) \<Rightarrow> traverse openAIToolToAnthropic tools
      | RawJSON _ \<Rightarrow> Inl ErrInvalidJSON)"

definition openAIToolChoiceToAnthropicToolChoice :: "rawMessage \<Rightarrow> convertError + rawMessage" where
  "openAIToolChoiceToAnthropicToolChoice raw =
     (case raw of
        RawEmpty \<Rightarrow> Inr RawEmpty
      | RawInvalid \<Rightarrow> Inl ErrInvalidJSON
      | RawJSON (JStr vv) \<Rightarrow>
          (if vv = ''auto'' then Inr (RawJSON (JObj [(''type'', JStr ''auto'')]))
           else if vv = ''none'' then Inr (RawJSON (JObj [(''type'', JStr ''none'')]))
           else if vv = ''required'' then Inr (RawJSON (JObj [(''type'', JStr ''any'')]))
           else Inl ErrUnsupportedMessageShape)
      | RawJSON (JObj vv) \<Rightarrow>
          (let t = stringOr (field (Some vv) ''type'')
           in if t = ''auto'' then Inr (RawJSON (JObj [(''type'', JStr ''auto'')]))
              else if t = ''none'' then Inr (RawJSON (JObj [(''type'', JStr ''none'')]))
              else if t = ''required'' then Inr (RawJSON (JObj [(''type'', JStr ''any'')]))
              else if t = ''function'' then
                (let name = stringOr (field (asObject (field (Some vv) ''function'')) ''name'')
                 in if TrimSpace name = [] then Inl ErrUnsupportedMessageShape
                    else Inr (RawJSON (JObj [(''type'', JStr ''tool''),
                                             (''name'', JStr name)])))
              else Inl ErrUnsupportedMessageShape)
      | RawJSON _ \<Rightarrow> Inl ErrUnsupportedMessageShape)"

definition systemParts :: "converted list \<Rightarrow> string list" where
  "systemParts cs = concat (map (\<lambda>c. case c of SystemPart s \<Rightarrow> [s] | _ \<Rightarrow> []) cs)"

definition convertedMessages :: "converted list \<Rightarrow> Message list" where
  "convertedMessages cs = concat (map (\<lambda>c. case c of Converted m \<Rightarrow> [m] | _ \<Rightarrow> []) cs)"

definition OpenAIToAnthropicMessageRequest ::
  "(jv \<Rightarrow> string) \<Rightarrow> (string \<Rightarrow> jv option) \<Rightarrow> ChatCompletionsRequest
     \<Rightarrow> convertError + MessageCreateRequest" where
  "OpenAIToAnthropicMessageRequest marshal unmarshal req =
     (case asArray (ccMessages req) of
        None \<Rightarrow> Inl ErrUnsupportedMessageShape
      | Some typed \<Rightarrow>
          (case traverse (openAIMessageToAnthropic marshal unmarshal) typed of
             Inl e \<Rightarrow> Inl e
           | Inr cs \<Rightarrow>
               (let maxTokens = (case ccMaxTokens req of
                                   Some n \<Rightarrow> (if n > 0 then n else 1024)
                                 | None \<Rightarrow> 1024)
                in case openAIToolsToAnthropicTools (ccTools req) of
                     Inl e \<Rightarrow> Inl e
                   | Inr tools \<Rightarrow>
                       (case openAIToolChoiceToAnthropicToolChoice (ccToolChoice req) of
                          Inl e \<Rightarrow> Inl e
                        | Inr toolChoice \<Rightarrow>
                            (let sys = TrimSpace (joinLF (systemParts cs))
                             in Inr \<lparr> mcModel = ccModel req, mcMaxTokens = maxTokens,
                                      Messages = convertedMessages cs,
                                      System = (if sys \<noteq> [] then JStr sys else JNull),
                                      Temperature = ccTemperature req,
                                      TopP = ccTopP req, mcStream = ccStream req,
                                      Tools = tools, ToolChoice = toolChoice \<rparr>)))))"

subsection \<open>The request on the wire\<close>

text \<open>
  What decoding the JSON encoding of a value into \<open>any\<close> gives back: the same value with
  every \<open>[]map[string]any\<close> turned into a \<open>[]any\<close> of \<open>map[string]any\<close>.
\<close>

fun wire :: "jv \<Rightarrow> jv" where
  "wire (JArr xs) = JArr (map wire xs)"
| "wire (JObj kvs) = JObj (map (\<lambda>kv. (fst kv, wire (snd kv))) kvs)"
| "wire (JMaps ms) = JArr (map (\<lambda>m. JObj (map (\<lambda>kv. (fst kv, wire (snd kv))) m)) ms)"
| "wire v = v"

definition wireRaw :: "rawMessage \<Rightarrow> rawMessage" where
  "wireRaw raw = (case raw of RawJSON v \<Rightarrow> RawJSON (wire v) | _ \<Rightarrow> raw)"

definition wireRequest :: "ChatCompletionsRequest \<Rightarrow> ChatCompletionsRequest" where
  "wireRequest req = req\<lparr> ccMessages := wire (ccMessages req),
                           ccTools := wireRaw (ccTools req),
                           ccToolChoice := wireRaw (ccToolChoice req) \<rparr>"

subsection \<open>What a round trip is to preserve\<close>

text \<open>
  The content blocks of a message, the pairs of id and name of its \<open>tool_use\<close> blocks
  and the ids its \<open>tool_result\<close> blocks refer to, in the order of the blocks.
\<close>

definition blockType :: "jobject \<Rightarrow> string" where
  "blockType blk = stringOr (field (Some blk) ''type'')"

definition blocksOfMessage :: "Message \<Rightarrow> jobject list" where
  "blocksOfMessage m = (case anthropicContentToBlocks (Content m) of
                          Inr blocks \<Rightarrow> blocks
                        | Inl e \<Rightarrow> [])"

definition toolUsesIn :: "jobject list \<Rightarrow> (string \<times> string) list" where
  "toolUsesIn blocks =
     map (\<lambda>blk. (stringOr (field (Some blk) ''id''), stringOr (field (Some blk) ''name'')))
       (filter (\<lambda>blk. blockType blk = ''tool_use'') blocks)"

definition toolResultsIn :: "jobject list \<Rightarrow> string list" where
  "toolResultsIn blocks =
     map (\<lambda>blk. stringOr (field (Some blk) ''tool_use_id''))
       (filter (\<lambda>blk. blockType blk = ''tool_result'') blocks)"

definition systemTextOf :: "(jv \<Rightarrow> string) \<Rightarrow> MessageCreateRequest \<Rightarrow> string" where
  "systemTextOf marshal ar =
     (case System ar of JStr v \<Rightarrow> v | JNull \<Rightarrow> [] | v \<Rightarrow> marshal v)"

subsection \<open>The shapes the conversion produces\<close>

text \<open>
  An object as it is decoded from its encoding; the id and the function name of an
  OpenAI tool call; the tool calls and the tool messages that
  \<open>anthropicMessageToOpenAIMessages\<close> builds from \<open>tool_use\<close> and \<open>tool_result\<close> blocks.
\<close>

abbreviation wireObject :: "jobject \<Rightarrow> jobject" where
  "wireObject kvs \<equiv> map (\<lambda>kv. (fst kv, wire (snd kv))) kvs"

definition callIdName :: "jobject \<Rightarrow> string \<times> string" where
  "callIdName call = (stringOr (field (Some call) ''id''),
                      stringOr (field (asObject (field (Some call) ''function'')) ''name''))"

definition wellFormedCall :: "jobject \<Rightarrow> bool" where
  "wellFormedCall call \<longleftrightarrow>
     (\<exists>ident name args. call = [(''id'', JStr ident), (''type'', JStr ''function''),
                                 (''function'', JObj [(''name'', JStr name),
                                                      (''arguments'', JStr args)])]
        \<and> TrimSpace ident \<noteq> [] \<and> TrimSpace name \<noteq> [])"

definition wellFormedToolMessage :: "jobject \<Rightarrow> bool" where
  "wellFormedToolMessage tm \<longleftrightarrow>
     (\<exists>ident c. tm = [(''role'', JStr ''tool''), (''tool_call_id'', JStr ident),
                       (''content'', JStr c)]
        \<and> TrimSpace ident \<noteq> [])"

section \<open>The specification's wording, for comparison\<close>



section \<open>A small configuration\<close>

text \<open>
  One Anthropic provider with three enabled credentials of weight 1, and one pool without
  tiers that lists them, used to run the definitions on concrete input.
\<close>

definition exProvider :: providerRow where
  "exProvider = \<lparr> provID = 1, provType = ''anthropic'', provBaseURL = ''https://up'',
                   DefaultHeaders = Map.empty,
                   provModelMap = [''Sonnet'' \<mapsto> ''claude-sonnet-4-5''],
                   provModels = [] \<rparr>"

definition exCredential :: "nat \<Rightarrow> credentialRow" where
  "exCredential n = \<lparr> credID = n, credProviderID = 1, APIKeyCiphertext = ''c'', Weight = 1,
                      ConcurrencyLimit = 0, Enabled = True \<rparr>"

definition exPool :: poolRow where
  "exPool = \<lparr> poolID = 1, poolName = ''pool'', ClientKey = ''key'',
               Strategy = ''weighted_rr'', Tiers = [], CredentialIDs = [10, 20, 30],
               ExpandedCredentialIDs = [10, 20, 30], poolModelMap = Map.empty,
               poolEnabled = True \<rparr>"

definition exConfig :: loadedConfig where
  "exConfig = \<lparr> providers = [1 \<mapsto> exProvider],
                 credentials = [10 \<mapsto> exCredential 10, 20 \<mapsto> exCredential 20,
                                30 \<mapsto> exCredential 30],
                 providerCreds = [1 \<mapsto> [10, 20, 30]],
                 pools = [1 \<mapsto> exPool],
                 poolByClientKey = [''key'' \<mapsto> exPool] \<rparr>"

definition exDecrypt :: "string \<Rightarrow> string option" where
  "exDecrypt blob = Some ''sk''"

definition exAttempt :: "upstreamReply \<Rightarrow> attempt" where
  "exAttempt rep = \<lparr> pickedAt = 1000, endedAt = 2000, elapsed = 1000, marshalFails = False,
                      convertFails = False, reply = rep, streamFails = False,
                      decodeFails = False \<rparr>"


text \<open>
  A request with a system text, a tool, a tool call and its result (the request of the
  repository's test of the conversion, with blanks around the system text), and a
  stand-in for the JSON codec.
\<close>

definition exRequest :: MessageCreateRequest where
  "exRequest =
     \<lparr> mcModel = ''claude-3'', mcMaxTokens = 100,
       Messages =
         [\<lparr> Role = ''user'', Content = JStr ''hi'' \<rparr>,
          \<lparr> Role = ''assistant'',
            Content = JArr [JObj [(''type'', JStr ''tool_use''), (''id'', JStr ''toolu_1''),
                                  (''name'', JStr ''get_weather''),
                                  (''input'', JObj [(''location'', JStr ''SF'')])]] \<rparr>,
          \<lparr> Role = ''user'',
            Content = JArr [JObj [(''type'', JStr ''tool_result''),
                                  (''tool_use_id'', JStr ''toolu_1''),
                                  (''content'', JStr ''sunny'')]] \<rparr>],
       System = JStr '' be brief '', Temperature = None, TopP = None, mcStream = False,
       Tools = [\<lparr> toolName = ''get_weather'', Description = ''Get weather'',
                   InputSchema = RawJSON (JObj [(''type'', JStr ''object'')]) \<rparr>],
       ToolChoice = RawJSON (JObj [(''type'', JStr ''tool''),
                                   (''name'', JStr ''get_weather'')]) \<rparr>"

definition exMarshal :: "jv \<Rightarrow> string" where
  "exMarshal v = ''{}''"

definition exUnmarshal :: "string \<Rightarrow> jv option" where
  "exUnmarshal s = Some (JObj [])"

section \<open>Properties\<close>

subsection \<open>Backoff after a rate-limit answer\<close>

lemma backoff_429:
  "backoff 5 f (2 * Minute) = min (5 * 2 ^ min f 6 * Second) (2 * Minute)"
  by (simp add: backoff_def minInt_def Let_def min_def)

lemma EndRequest_state:
  assumes "cid \<noteq> 0"
  shows "credState (EndRequest r cid ok status latency now) cid =
           Some (updateHealth ((loadOrZero r cid)\<lparr>inflight := inflight (loadOrZero r cid) - 1\<rparr>)
                   ok status latency now)"
  using assms by (simp add: EndRequest_def Let_def)

lemma updateHealth_429_failures:
  "failures (updateHealth st ok 429 latency now) = failures st + 1"
  by (simp add: updateHealth_def Let_def)

lemma updateHealth_429_openUntil:
  "openUntil (updateHealth st ok 429 latency now)
     = now + backoff 5 (failures st + 1) (2 * Minute)"
  by (simp add: updateHealth_def Let_def)

lemma backoff_ge_40:
  assumes "3 \<le> f"
  shows "40 * Second \<le> backoff 5 f (2 * Minute)"
proof -
  have "(2::nat) ^ 3 \<le> 2 ^ minInt f 6"
    using assms by (intro power_increasing) (auto simp: minInt_def)
  then have "40 * Second \<le> 5 * 2 ^ minInt f 6 * Second" by simp
  moreover have "40 * Second \<le> 2 * Minute" by (simp add: Minute_def)
  ultimately show ?thesis by (simp add: backoff_def Let_def)
qed

lemma third_429_open:
  assumes "cid \<noteq> 0"
  shows "\<exists>st3. credState (EndRequest (EndRequest (EndRequest r cid ok1 429 l1 t1)
                                cid ok2 429 l2 t2) cid ok3 429 l3 t3) cid = Some st3
            \<and> t3 + 40 * Second \<le> openUntil st3
            \<and> (\<forall>t. t3 \<le> t \<and> t < openUntil st3 \<longrightarrow>
                   isCredentialOpen (EndRequest (EndRequest (EndRequest r cid ok1 429 l1 t1)
                                       cid ok2 429 l2 t2) cid ok3 429 l3 t3) cid t)"
proof -
  let ?r1 = "EndRequest r cid ok1 429 l1 t1"
  let ?r2 = "EndRequest ?r1 cid ok2 429 l2 t2"
  let ?r3 = "EndRequest ?r2 cid ok3 429 l3 t3"
  let ?st2 = "(loadOrZero ?r2 cid)\<lparr>inflight := inflight (loadOrZero ?r2 cid) - 1\<rparr>"
  let ?st3 = "updateHealth ?st2 ok3 429 l3 t3"
  have s3: "credState ?r3 cid = Some ?st3"
    using assms by (rule EndRequest_state)
  have f1: "1 \<le> failures (loadOrZero ?r1 cid)"
    using assms by (simp add: loadOrZero_def EndRequest_state updateHealth_429_failures)
  have f2: "2 \<le> failures (loadOrZero ?r2 cid)"
    using assms f1
    by (simp add: loadOrZero_def EndRequest_state [of cid ?r1] updateHealth_429_failures)
  then have f3: "3 \<le> failures ?st2 + 1" by simp
  have "openUntil ?st3 = t3 + backoff 5 (failures ?st2 + 1) (2 * Minute)"
    by (rule updateHealth_429_openUntil)
  with backoff_ge_40 [OF f3] have ge: "t3 + 40 * Second \<le> openUntil ?st3" by simp
  then have pos: "0 < openUntil ?st3" by (simp add: Second_def)
  then have "\<forall>t. t3 \<le> t \<and> t < openUntil ?st3 \<longrightarrow> isCredentialOpen ?r3 cid t"
    by (simp add: isCredentialOpen_def s3 IsZero_def Before_def)
  with s3 ge show ?thesis by blast
qed

text \<open>
  Claim C2. An \<open>EndRequest\<close> with status 429 on a credential (a non-zero id; id 0 stands
  for "no credential" and is ignored by \<open>EndRequest\<close>) increments the consecutive
  failures and sets \<open>openUntil\<close> to the current instant plus
  \<open>min (5 * 2 ^ min failures 6 seconds) (2 minutes)\<close>, with the incremented count. After
  three such calls in a row, from any state and whatever the \<open>ok\<close> flags and latencies,
  \<open>openUntil\<close> is at least 40 seconds after the third call and \<open>isCredentialOpen\<close> holds
  at every instant from that call until \<open>openUntil\<close>.
\<close>

theorem EndRequest_429_backoff:
  assumes "cid \<noteq> 0"
  shows "(\<exists>st'. credState (EndRequest r cid ok 429 latency now) cid = Some st'
            \<and> failures st' = failures (loadOrZero r cid) + 1
            \<and> openUntil st' = now + min (5 * 2 ^ min (failures st') 6 * Second) (2 * Minute))
       \<and> (\<exists>st3. credState (EndRequest (EndRequest (EndRequest r cid ok1 429 l1 t1)
                                cid ok2 429 l2 t2) cid ok3 429 l3 t3) cid = Some st3
            \<and> t3 + 40 * Second \<le> openUntil st3
            \<and> (\<forall>t. t3 \<le> t \<and> t < openUntil st3 \<longrightarrow>
                   isCredentialOpen (EndRequest (EndRequest (EndRequest r cid ok1 429 l1 t1)
                                       cid ok2 429 l2 t2) cid ok3 429 l3 t3) cid t))"
proof
  show "\<exists>st'. credState (EndRequest r cid ok 429 latency now) cid = Some st'
            \<and> failures st' = failures (loadOrZero r cid) + 1
            \<and> openUntil st' = now + min (5 * 2 ^ min (failures st') 6 * Second) (2 * Minute)"
    using assms
    by (simp add: EndRequest_state updateHealth_429_failures updateHealth_429_openUntil
          backoff_429)
next
  show "\<exists>st3. credState (EndRequest (EndRequest (EndRequest r cid ok1 429 l1 t1)
                                cid ok2 429 l2 t2) cid ok3 429 l3 t3) cid = Some st3
            \<and> t3 + 40 * Second \<le> openUntil st3
            \<and> (\<forall>t. t3 \<le> t \<and> t < openUntil st3 \<longrightarrow>
                   isCredentialOpen (EndRequest (EndRequest (EndRequest r cid ok1 429 l1 t1)
                                       cid ok2 429 l2 t2) cid ok3 429 l3 t3) cid t)"
    using assms by (rule third_429_open)
qed

theorem EndRequest_429_backoff_witness:
  "(\<exists>st'. credState (EndRequest New 7 False 429 0 1000) 7 = Some st'
            \<and> failures st' = failures (loadOrZero New 7) + 1
            \<and> openUntil st' = 1000 + min (5 * 2 ^ min (failures st') 6 * Second) (2 * Minute))
       \<and> (\<exists>st3. credState (EndRequest (EndRequest (EndRequest New 7 False 429 0 1000)
                                7 False 429 0 2000) 7 False 429 0 3000) 7 = Some st3
            \<and> 3000 + 40 * Second \<le> openUntil st3
            \<and> (\<forall>t. 3000 \<le> t \<and> t < openUntil st3 \<longrightarrow>
                   isCredentialOpen (EndRequest (EndRequest (EndRequest New 7 False 429 0 1000)
                                       7 False 429 0 2000) 7 False 429 0 3000) 7 t))"
  using EndRequest_429_backoff [where cid = 7 and r = New and ok = False and latency = 0
      and now = 1000 and ?ok1.0 = False and ?l1.0 = 0 and ?t1.0 = 1000 and ?ok2.0 = False
      and ?l2.0 = 0 and ?t2.0 = 2000 and ?ok3.0 = False and ?l3.0 = 0 and ?t3.0 = 3000]
  by simp

subsection \<open>Route cache updates\<close>

text \<open>
  Claim C3. For a pool and a credential (non-zero ids; a call with a zero id is ignored),
  \<open>RecordRouteResult\<close> with \<open>ok\<close> sets the entry of the route key to the credential,
  expiring 90 seconds after the current instant; without \<open>ok\<close> it deletes the entry
  exactly when the status is 0, 401, 403, 429 or at least 500 and the entry exists and
  names this credential; in every other case the cache is unchanged.
\<close>

theorem RecordRouteResult_postcondition:
  assumes "pid \<noteq> 0" and "cid \<noteq> 0"
  shows "routeCache (RecordRouteResult r pid facade model cid ok status now) =
           (if ok
            then (routeCache r)(routeKey pid facade model
                   \<mapsto> \<lparr> credentialID = cid, expiresAt = now + 90 * Second \<rparr>)
            else if (status \<in> {0, 401, 403, 429} \<or> status \<ge> 500)
                    \<and> (\<exists>cur. routeCache r (routeKey pid facade model) = Some cur
                              \<and> credentialID cur = cid)
            then (routeCache r)(routeKey pid facade model := None)
            else routeCache r)"
  using assms
  by (auto simp: RecordRouteResult_def Let_def routeCacheTT_def split: option.splits)

theorem RecordRouteResult_postcondition_witness:
  "routeCache (RecordRouteResult New 1 ''Anthropic'' ''m '' 7 True 200 5) ''1|anthropic|m''
     = Some \<lparr> credentialID = 7, expiresAt = 5 + 90 * Second \<rparr>"
  using RecordRouteResult_postcondition [where pid = 1 and cid = 7 and r = New
      and facade = "''Anthropic''" and model = "''m ''" and ok = True and status = 200
      and now = 5]
  by (simp add: routeKey_def decimal.simps ToLower_def TrimSpace_def lowerChar_def
        isSpace_def)

subsection \<open>Credential score\<close>










subsection \<open>Evaluation on the small configuration\<close>

lemmas ex_defs = exConfig_def exCredential_def exPool_def exProvider_def exDecrypt_def
  exAttempt_def New_def

lemmas str_defs = routeKey_def decimal.simps ToLower_def TrimSpace_def lowerChar_def
  isSpace_def FacadeAnthropic_def

lemmas pick_defs = pickUpstream_def pickCredentialFromPool_def pickLegacy_def nextCount_def
  scanIndex_def isAvailable_def isCredentialOpen_def getInflight_def credOf_def provOf_def
  mappedModel_def pickModelForAlias_def startRequest_def loadOrZero_def zeroState_def
  upt_conv_Cons Let_def

lemmas handler_defs = createMessage_def endCall_def recordCall_def respond_def answered_def
  EndRequest_def RecordRouteResult_def updateHealth_def numeral_2_eq_2

subsection \<open>The legacy round-robin scan\<close>












subsection \<open>Model map lookup\<close>





subsection \<open>The passthrough branch of the handler\<close>

text \<open>
  Claim C1 fails on the code. On the last pass of the retry loop, the passthrough branch
  calls \<open>EndRequest\<close> for an upstream answer of 429 or at least 500 and then, instead of
  returning as the other branches do, goes on to the common exit, which calls
  \<open>EndRequest\<close> again. A streaming request answered with 500 thus ends twice on the
  credential it picked, and the inflight counter goes from 0 to -1.
\<close>

theorem createMessage_ends_twice:
  "calls (createMessage exDecrypt (Some exConfig) ''key''
            (Some \<lparr> reqModel = ''sonnet'', MaxTokens = 5, Stream = True \<rparr>)
            (\<lambda>n. exAttempt (Reply 500)) New)
     = [Picked 20, Ended 20 False 500, Ended 20 False 500,
        Recorded 1 ''anthropic'' ''sonnet'' 20 False 500]
   \<and> getInflight New 20 = 0
   \<and> getInflight (router (createMessage exDecrypt (Some exConfig) ''key''
                             (Some \<lparr> reqModel = ''sonnet'', MaxTokens = 5, Stream = True \<rparr>)
                             (\<lambda>n. exAttempt (Reply 500)) New)) 20 = - 1"
  by (simp add: handler_defs pick_defs ex_defs str_defs)

text \<open>
  Claim C10. In a pass of the retry loop of a non-streaming request whose pick succeeds
  with an Anthropic provider (pool and credential ids not 0), when the upstream answers
  with a status from 200 to 499 other than 429 (401 and 403 included), the handler calls
  \<open>EndRequest\<close> and then \<open>RecordRouteResult\<close> with \<open>ok = True\<close> and that status, on the
  picked credential and with the model of the request as the client sent it; afterwards
  the route cache maps the route key to that credential, expiring 90 seconds later.
\<close>

theorem passthrough_records_success:
  assumes "pickUpstream decrypt r cfg clientKey FacadeAnthropic model
             (if n = 0 then {} else exclude) (pickedAt (env n)) = (Inr up, r1)"
    and "ProviderType up = ''anthropic''"
    and "reply (env n) = Reply status"
    and "200 \<le> status" and "status < 500" and "status \<noteq> 429"
    and "\<not> marshalFails (env n)"
    and "PoolID up \<noteq> 0" and "CredentialID up \<noteq> 0"
  shows "let out = attempts decrypt cfg clientKey origModel False env (Suc k) n model exclude
                     r tr;
             cid = CredentialID up
         in calls out = tr @ [Picked cid, Ended cid True status,
                              Recorded (PoolID up) FacadeAnthropic origModel cid True status]
            \<and> routeCache (router out) (routeKey (PoolID up) FacadeAnthropic origModel)
                = Some \<lparr> credentialID = cid, expiresAt = endedAt (env n) + 90 * Second \<rparr>"
  using assms
  by (simp add: Let_def endCall_def recordCall_def respond_def answered_def
        RecordRouteResult_def routeCacheTT_def)

theorem passthrough_records_success_witness:
  "calls (createMessage exDecrypt (Some exConfig) ''key''
            (Some \<lparr> reqModel = ''sonnet'', MaxTokens = 5, Stream = False \<rparr>)
            (\<lambda>n. exAttempt (Reply 401)) New)
     = [Picked 20, Ended 20 True 401, Recorded 1 ''anthropic'' ''sonnet'' 20 True 401]
   \<and> routeCache (router (createMessage exDecrypt (Some exConfig) ''key''
                            (Some \<lparr> reqModel = ''sonnet'', MaxTokens = 5, Stream = False \<rparr>)
                            (\<lambda>n. exAttempt (Reply 401)) New)) ''1|anthropic|sonnet''
       = Some \<lparr> credentialID = 20, expiresAt = 2000 + 90 * Second \<rparr>"
proof -
  have e: "pickUpstream exDecrypt New (Some exConfig) ''key'' FacadeAnthropic ''sonnet''
             (if (0::nat) = 0 then {} else {}) (pickedAt (exAttempt (Reply 401)))
        = (Inr \<lparr> PoolID = 1, CredentialID = 20, ProviderID = 1, ProviderType = ''anthropic'',
                  BaseURL = ''https://up'', APIKey = ''sk'', Model = ''sonnet'',
                  Headers = Map.empty, Timeout = 30 * int Second \<rparr>,
           startRequest (New\<lparr>poolStates := [1 \<mapsto> 1]\<rparr>) 20)"
    by (simp add: pick_defs ex_defs str_defs)
  from passthrough_records_success [where env = "\<lambda>n. exAttempt (Reply 401)" and n = 0
      and k = 1 and status = 401 and origModel = "''sonnet''" and tr = "[]", OF e]
  have "calls (attempts exDecrypt (Some exConfig) ''key'' ''sonnet'' False
                 (\<lambda>n. exAttempt (Reply 401)) (Suc (Suc 0)) 0 ''sonnet'' {} New [])
          = [Picked 20, Ended 20 True 401, Recorded 1 FacadeAnthropic ''sonnet'' 20 True 401]
        \<and> routeCache (router (attempts exDecrypt (Some exConfig) ''key'' ''sonnet'' False
                 (\<lambda>n. exAttempt (Reply 401)) (Suc (Suc 0)) 0 ''sonnet'' {} New []))
            (routeKey 1 FacadeAnthropic ''sonnet'')
          = Some \<lparr> credentialID = 20, expiresAt = 2000 + 90 * Second \<rparr>"
    by (simp add: exAttempt_def Let_def del: attempts.simps)
  then show ?thesis
    by (simp add: createMessage_def numeral_2_eq_2 str_defs del: attempts.simps)
qed
subsection \<open>Malformed payloads in a stream\<close>












subsection \<open>Stop reasons\<close>






subsection \<open>Round trip of a request\<close>

lemma traverse_append:
  "traverse f (xs @ ys) =
     (case traverse f xs of
        Inl e \<Rightarrow> Inl e
      | Inr as \<Rightarrow> (case traverse f ys of Inl e \<Rightarrow> Inl e | Inr bs \<Rightarrow> Inr (as @ bs)))"
  by (induction xs) (auto split: sum.splits)

lemma traverse_map: "traverse f (map g xs) = traverse (\<lambda>x. f (g x)) xs"
  by (induction xs) (auto split: sum.splits)

lemma traverse_total:
  assumes "\<forall>x \<in> set xs. f x = Inr (g x)"
  shows "traverse f xs = Inr (map g xs)"
  using assms by (induction xs) auto

lemma traverse_Cons_Inr:
  assumes "traverse f (x # xs) = Inr zs"
  obtains y ys where "f x = Inr y" and "traverse f xs = Inr ys" and "zs = y # ys"
  using assms by (auto split: sum.splits)

lemma traverse_append_Inr:
  assumes "traverse f (xs @ ys) = Inr zs"
  obtains as bs where "traverse f xs = Inr as" and "traverse f ys = Inr bs"
    and "zs = as @ bs"
  using assms by (auto simp: traverse_append split: sum.splits)

lemma field_wireObject: "field (Some (wireObject kvs)) k = wire (field (Some kvs) k)"
  by (induction kvs) (auto simp: field_def)

lemma wire_JStr_iff: "wire v = JStr s \<longleftrightarrow> v = JStr s"
  by (cases v) auto

lemma stringOr_wire: "stringOr (wire v) = stringOr v"
  by (cases v) (auto simp: stringOr_def asString_def)

lemma asString_wire: "asString (wire v) = asString v"
  by (cases v) (auto simp: asString_def)

text \<open>The parts of the content blocks against the blocks themselves.\<close>

lemma callIdName_call:
  "callIdName [(''id'', JStr ident), (''type'', JStr ''function''),
               (''function'', JObj [(''name'', JStr name), (''arguments'', JStr args)])]
     = (ident, name)"
  by (simp add: callIdName_def field_def stringOr_def asString_def asObject_def)

lemma toolMessage_id:
  "stringOr (field (Some [(''role'', JStr ''tool''), (''tool_call_id'', JStr ident),
                          (''content'', JStr c)]) ''tool_call_id'') = ident"
  by (simp add: field_def stringOr_def asString_def)

lemma blockToPart_tool_use:
  assumes "blockToPart marshal blk = Inr p" and "blockType blk = ''tool_use''"
  shows "\<exists>call. p = ToolCallPart call \<and> wellFormedCall call
           \<and> callIdName call = (stringOr (field (Some blk) ''id''),
                                 stringOr (field (Some blk) ''name''))"
proof -
  let ?ident = "stringOr (field (Some blk) ''id'')"
  let ?name = "stringOr (field (Some blk) ''name'')"
  let ?call = "[(''id'', JStr ?ident), (''type'', JStr ''function''),
                (''function'', JObj [(''name'', JStr ?name),
                   (''arguments'', JStr (marshal (field (Some blk) ''input'')))])]"
  from assms have ok: "TrimSpace ?ident \<noteq> []" "TrimSpace ?name \<noteq> []"
    and p: "p = ToolCallPart ?call"
    by (auto simp: blockToPart_def blockType_def Let_def split: if_splits)
  from ok have "wellFormedCall ?call" unfolding wellFormedCall_def by blast
  with p show ?thesis by (simp add: callIdName_call)
qed

lemma blockToPart_tool_result:
  assumes "blockToPart marshal blk = Inr p" and "blockType blk = ''tool_result''"
  shows "\<exists>tm. p = ToolMessagePart tm \<and> wellFormedToolMessage tm
           \<and> stringOr (field (Some tm) ''tool_call_id'')
               = stringOr (field (Some blk) ''tool_use_id'')"
proof -
  let ?ident = "stringOr (field (Some blk) ''tool_use_id'')"
  from assms obtain c where ok: "TrimSpace ?ident \<noteq> []"
    and p: "p = ToolMessagePart [(''role'', JStr ''tool''), (''tool_call_id'', JStr ?ident),
                                 (''content'', JStr c)]"
    by (auto simp: blockToPart_def blockType_def Let_def split: if_splits)
  from ok have "wellFormedToolMessage [(''role'', JStr ''tool''),
                  (''tool_call_id'', JStr ?ident), (''content'', JStr c)]"
    unfolding wellFormedToolMessage_def by blast
  with p show ?thesis by (simp add: toolMessage_id)
qed

lemma blockToPart_other:
  assumes "blockToPart marshal blk = Inr p"
  shows "(blockType blk \<noteq> ''tool_use'' \<longrightarrow> (\<forall>call. p \<noteq> ToolCallPart call))
       \<and> (blockType blk \<noteq> ''tool_result'' \<longrightarrow> (\<forall>tm. p \<noteq> ToolMessagePart tm))"
  using assms
  by (auto simp: blockToPart_def blockType_def Let_def
      split: if_splits option.splits sum.splits)

lemma parts_toolCalls:
  assumes "traverse (blockToPart marshal) blocks = Inr ps"
  shows "map callIdName (toolCalls ps) = toolUsesIn blocks
       \<and> (\<forall>call \<in> set (toolCalls ps). wellFormedCall call)"
  using assms
proof (induction blocks arbitrary: ps)
  case Nil
  then show ?case by (simp add: toolCalls_def toolUsesIn_def)
next
  case (Cons blk blocks)
  from Cons.prems obtain p ps' where p: "blockToPart marshal blk = Inr p"
    and ps': "traverse (blockToPart marshal) blocks = Inr ps'" and ps: "ps = p # ps'"
    by (rule traverse_Cons_Inr)
  from Cons.IH [OF ps'] have ih: "map callIdName (toolCalls ps') = toolUsesIn blocks"
    "\<forall>call \<in> set (toolCalls ps'). wellFormedCall call" by simp_all
  show ?case
  proof (cases "blockType blk = ''tool_use''")
    case True
    with blockToPart_tool_use [OF p] obtain call where
      c: "p = ToolCallPart call" "wellFormedCall call"
         "callIdName call = (stringOr (field (Some blk) ''id''),
                             stringOr (field (Some blk) ''name''))" by blast
    with True ih show ?thesis by (simp add: ps toolCalls_def toolUsesIn_def)
  next
    case False
    with blockToPart_other [OF p] have "\<forall>call. p \<noteq> ToolCallPart call" by blast
    then have "(case p of ToolCallPart c \<Rightarrow> [c] | _ \<Rightarrow> []) = []"
      by (cases p) auto
    with False ih show ?thesis by (simp add: ps toolCalls_def toolUsesIn_def)
  qed
qed

lemma parts_toolMessages:
  assumes "traverse (blockToPart marshal) blocks = Inr ps"
  shows "map (\<lambda>tm. stringOr (field (Some tm) ''tool_call_id'')) (toolMessages ps)
           = toolResultsIn blocks
       \<and> (\<forall>tm \<in> set (toolMessages ps). wellFormedToolMessage tm)"
  using assms
proof (induction blocks arbitrary: ps)
  case Nil
  then show ?case by (simp add: toolMessages_def toolResultsIn_def)
next
  case (Cons blk blocks)
  from Cons.prems obtain p ps' where p: "blockToPart marshal blk = Inr p"
    and ps': "traverse (blockToPart marshal) blocks = Inr ps'" and ps: "ps = p # ps'"
    by (rule traverse_Cons_Inr)
  from Cons.IH [OF ps'] have ih:
    "map (\<lambda>tm. stringOr (field (Some tm) ''tool_call_id'')) (toolMessages ps')
       = toolResultsIn blocks"
    "\<forall>tm \<in> set (toolMessages ps'). wellFormedToolMessage tm" by simp_all
  show ?case
  proof (cases "blockType blk = ''tool_result''")
    case True
    with blockToPart_tool_result [OF p] obtain tm where
      c: "p = ToolMessagePart tm" "wellFormedToolMessage tm"
         "stringOr (field (Some tm) ''tool_call_id'')
            = stringOr (field (Some blk) ''tool_use_id'')" by blast
    with True ih show ?thesis by (simp add: ps toolMessages_def toolResultsIn_def)
  next
    case False
    with blockToPart_other [OF p] have "\<forall>tm. p \<noteq> ToolMessagePart tm" by blast
    then have "(case p of ToolMessagePart m \<Rightarrow> [m] | _ \<Rightarrow> []) = []"
      by (cases p) auto
    with False ih show ?thesis by (simp add: ps toolMessages_def toolResultsIn_def)
  qed
qed

text \<open>The blocks the conversion back builds.\<close>

lemma blockType_Cons: "blockType ((''type'', JStr t) # rest) = t"
  by (simp add: blockType_def field_def stringOr_def asString_def)

lemma toolUsesIn_append: "toolUsesIn (xs @ ys) = toolUsesIn xs @ toolUsesIn ys"
  by (simp add: toolUsesIn_def)

lemma toolResultsIn_append: "toolResultsIn (xs @ ys) = toolResultsIn xs @ toolResultsIn ys"
  by (simp add: toolResultsIn_def)

lemma no_tools_in:
  assumes "\<forall>b \<in> set bs. blockType b = ''text'' \<or> blockType b = ''image''"
  shows "toolUsesIn bs = [] \<and> toolResultsIn bs = []"
proof -
  have "filter (\<lambda>blk. blockType blk = ''tool_use'') bs = []"
    using assms by (auto simp: filter_empty_conv)
  moreover have "filter (\<lambda>blk. blockType blk = ''tool_result'') bs = []"
    using assms by (auto simp: filter_empty_conv)
  ultimately show ?thesis by (simp add: toolUsesIn_def toolResultsIn_def)
qed

lemma openAIContentPartToBlock_types:
  assumes "openAIContentPartToBlock it = Inr bl"
  shows "\<forall>b \<in> set bl. blockType b = ''text'' \<or> blockType b = ''image''"
  using assms
  by (auto simp: openAIContentPartToBlock_def Let_def blockType_Cons
      split: option.splits if_splits prod.splits)

lemma traverse_parts_types:
  assumes "traverse openAIContentPartToBlock items = Inr bs"
  shows "\<forall>b \<in> set (concat bs). blockType b = ''text'' \<or> blockType b = ''image''"
  using assms
proof (induction items arbitrary: bs)
  case Nil
  then show ?case by simp
next
  case (Cons it items)
  from Cons.prems obtain bl bs' where "openAIContentPartToBlock it = Inr bl"
    and "traverse openAIContentPartToBlock items = Inr bs'" and "bs = bl # bs'"
    by (rule traverse_Cons_Inr)
  with Cons.IH [of bs'] openAIContentPartToBlock_types [of it bl] show ?case by auto
qed

lemma content_blocks_types:
  assumes "openAIMessageContentToAnthropicBlocks c = Inr cb"
  shows "\<forall>b \<in> set cb. blockType b = ''text'' \<or> blockType b = ''image''"
proof (cases c)
  case (JStr v)
  with assms show ?thesis
    by (auto simp: openAIMessageContentToAnthropicBlocks_def blockType_Cons split: if_splits)
next
  case (JArr items)
  with assms obtain bs where "traverse openAIContentPartToBlock items = Inr bs"
    and "cb = concat bs"
    by (auto simp: openAIMessageContentToAnthropicBlocks_def split: sum.splits)
  with traverse_parts_types show ?thesis by blast
qed (use assms in \<open>auto simp: openAIMessageContentToAnthropicBlocks_def\<close>)

lemma call_back:
  assumes "wellFormedCall call"
    and "openAIToolCallToBlock unmarshal (JObj (wireObject call)) = Inr blk"
  shows "blockType blk = ''tool_use''
       \<and> (stringOr (field (Some blk) ''id''), stringOr (field (Some blk) ''name''))
           = callIdName call"
proof -
  from assms(1) obtain ident name args where
    call: "call = [(''id'', JStr ident), (''type'', JStr ''function''),
                   (''function'', JObj [(''name'', JStr name), (''arguments'', JStr args)])]"
    unfolding wellFormedCall_def by blast
  from assms(2) obtain input where
    "blk = [(''type'', JStr ''tool_use''), (''id'', JStr ident), (''name'', JStr name),
            (''input'', input)]"
    unfolding call
    by (auto simp: openAIToolCallToBlock_def Let_def field_def asObject_def stringOr_def
          asString_def split: if_splits option.splits)
  then show ?thesis
    by (simp add: call callIdName_call blockType_Cons field_def stringOr_def asString_def)
qed

lemma calls_back:
  assumes "\<forall>call \<in> set tcs. wellFormedCall call"
    and "traverse (openAIToolCallToBlock unmarshal) (map (\<lambda>m. JObj (wireObject m)) tcs)
           = Inr tub"
  shows "toolUsesIn tub = map callIdName tcs \<and> toolResultsIn tub = []"
  using assms
proof (induction tcs arbitrary: tub)
  case Nil
  then show ?case by (simp add: toolUsesIn_def toolResultsIn_def)
next
  case (Cons call tcs)
  from Cons.prems(2) obtain blk tub' where
    b: "openAIToolCallToBlock unmarshal (JObj (wireObject call)) = Inr blk"
    and t: "traverse (openAIToolCallToBlock unmarshal)
              (map (\<lambda>m. JObj (wireObject m)) tcs) = Inr tub'"
    and tub: "tub = blk # tub'"
    by (auto split: sum.splits)
  from Cons.prems(1) have wf: "wellFormedCall call"
    and wfs: "\<forall>call \<in> set tcs. wellFormedCall call" by simp_all
  from call_back [OF wf b] Cons.IH [OF wfs t] show ?case
    by (simp add: tub toolUsesIn_def toolResultsIn_def)
qed

lemma blocksOfMessage_JMaps: "blocksOfMessage \<lparr> Role = r, Content = JMaps bs \<rparr> = bs"
  by (simp add: blocksOfMessage_def anthropicContentToBlocks_def)

lemma main_message_back:
  assumes role: "role = ''user'' \<or> role = ''assistant''"
    and r: "field (Some main) ''role'' = JStr role"
    and tc: "field (Some main) ''tool_calls'' = (if tcs \<noteq> [] then JMaps tcs else JNull)"
    and wf: "\<forall>call \<in> set tcs. wellFormedCall call"
    and bk: "openAIMessageToAnthropic marshal unmarshal (JObj (wireObject main)) = Inr c"
  shows "\<exists>m0. c = Converted m0 \<and> Role m0 = role
           \<and> toolUsesIn (blocksOfMessage m0) = map callIdName tcs
           \<and> toolResultsIn (blocksOfMessage m0) = []"
proof -
  have trim: "TrimSpace role = role"
    using role by (auto simp: TrimSpace_def isSpace_def)
  have r': "stringOr (field (Some (wireObject main)) ''role'') = role"
    by (simp add: field_wireObject r stringOr_def asString_def)
  have ne: "role \<noteq> []" "role \<noteq> ''system''" using role by auto
  from bk obtain cb tub where
    cb: "openAIMessageContentToAnthropicBlocks (field (Some (wireObject main)) ''content'')
           = Inr cb"
    and tub: "openAIToolCallsToAnthropicBlocks unmarshal
                (field (Some (wireObject main)) ''tool_calls'') = Inr tub"
    and c: "c = Converted \<lparr> Role = role, Content = JMaps (cb @ tub) \<rparr>"
    using role ne
    by (auto simp: openAIMessageToAnthropic_def asObject_def Let_def r' trim
        split: sum.splits)
  from content_blocks_types [OF cb] have "toolUsesIn cb = [] \<and> toolResultsIn cb = []"
    by (rule no_tools_in)
  moreover have "toolUsesIn tub = map callIdName tcs \<and> toolResultsIn tub = []"
  proof (cases "tcs = []")
    case True
    with tub tc show ?thesis
      by (simp add: field_wireObject openAIToolCallsToAnthropicBlocks_def toolUsesIn_def
            toolResultsIn_def)
  next
    case False
    with tub tc have "traverse (openAIToolCallToBlock unmarshal)
                        (map (\<lambda>m. JObj (wireObject m)) tcs) = Inr tub"
      by (simp add: field_wireObject openAIToolCallsToAnthropicBlocks_def)
    with wf show ?thesis by (rule calls_back)
  qed
  ultimately show ?thesis
    by (simp add: c blocksOfMessage_JMaps toolUsesIn_append toolResultsIn_append)
qed

lemma tool_message_back:
  assumes "wellFormedToolMessage tm"
  shows "\<exists>m1. openAIMessageToAnthropic marshal unmarshal (JObj (wireObject tm))
                 = Inr (Converted m1)
           \<and> Role m1 = ''user'' \<and> toolUsesIn (blocksOfMessage m1) = []
           \<and> toolResultsIn (blocksOfMessage m1)
               = [TrimSpace (stringOr (field (Some tm) ''tool_call_id''))]"
proof -
  from assms obtain ident c where
    tm: "tm = [(''role'', JStr ''tool''), (''tool_call_id'', JStr ident), (''content'', JStr c)]"
    and ok: "TrimSpace ident \<noteq> []"
    unfolding wellFormedToolMessage_def by blast
  have t: "TrimSpace ''tool'' = ''tool''" by (simp add: TrimSpace_def isSpace_def)
  let ?m1 = "\<lparr> Role = ''user'',
               Content = JMaps [[(''type'', JStr ''tool_result''),
                                 (''tool_use_id'', JStr (TrimSpace ident)),
                                 (''content'', JStr (stringifyJSONish marshal (JStr c))),
                                 (''is_error'', JBool False)]] \<rparr>"
  have "openAIMessageToAnthropic marshal unmarshal (JObj (wireObject tm))
          = Inr (Converted ?m1)"
    using ok
    by (simp add: tm openAIMessageToAnthropic_def asObject_def field_def stringOr_def
          asString_def t Let_def)
  moreover have "toolUsesIn (blocksOfMessage ?m1) = []"
    by (simp add: blocksOfMessage_JMaps toolUsesIn_def blockType_Cons)
  moreover have "toolResultsIn (blocksOfMessage ?m1) = [TrimSpace ident]"
    by (simp add: blocksOfMessage_JMaps toolResultsIn_def blockType_Cons field_def
          stringOr_def asString_def)
  ultimately show ?thesis by (simp add: tm toolMessage_id)
qed

text \<open>One message, there and back.\<close>

lemma systemParts_append: "systemParts (xs @ ys) = systemParts xs @ systemParts ys"
  by (simp add: systemParts_def)

lemma convertedMessages_append:
  "convertedMessages (xs @ ys) = convertedMessages xs @ convertedMessages ys"
  by (simp add: convertedMessages_def)

lemma tool_messages_back:
  assumes "\<forall>tm \<in> set tms. wellFormedToolMessage tm"
    and "traverse (openAIMessageToAnthropic marshal unmarshal)
           (map (\<lambda>m. JObj (wireObject m)) tms) = Inr cs"
  shows "systemParts cs = []
       \<and> map Role (convertedMessages cs) = replicate (length tms) ''user''
       \<and> concat (map (\<lambda>x. toolUsesIn (blocksOfMessage x)) (convertedMessages cs)) = []
       \<and> concat (map (\<lambda>x. toolResultsIn (blocksOfMessage x)) (convertedMessages cs))
           = map (\<lambda>tm. TrimSpace (stringOr (field (Some tm) ''tool_call_id''))) tms"
  using assms
proof (induction tms arbitrary: cs)
  case Nil
  then show ?case by (simp add: systemParts_def convertedMessages_def)
next
  case (Cons tm tms)
  from Cons.prems(1) have wf: "wellFormedToolMessage tm"
    and wfs: "\<forall>tm \<in> set tms. wellFormedToolMessage tm" by simp_all
  from tool_message_back [OF wf, of marshal unmarshal] obtain m1 where
    m1: "openAIMessageToAnthropic marshal unmarshal (JObj (wireObject tm))
           = Inr (Converted m1)"
    and p: "Role m1 = ''user''" "toolUsesIn (blocksOfMessage m1) = []"
      "toolResultsIn (blocksOfMessage m1)
         = [TrimSpace (stringOr (field (Some tm) ''tool_call_id''))]" by blast
  from Cons.prems(2) m1 obtain cs' where
    t: "traverse (openAIMessageToAnthropic marshal unmarshal)
          (map (\<lambda>m. JObj (wireObject m)) tms) = Inr cs'"
    and cs: "cs = Converted m1 # cs'"
    by (auto split: sum.splits)
  from Cons.IH [OF wfs t] p show ?case
    by (simp add: cs systemParts_def convertedMessages_def)
qed

lemma forward_message_form:
  assumes "anthropicMessageToOpenAIMessages marshal m = Inr out"
  shows "\<exists>blocks ps main.
           anthropicContentToBlocks (Content m) = Inr blocks
         \<and> traverse (blockToPart marshal) blocks = Inr ps
         \<and> (TrimSpace (Role m) = ''user'' \<or> TrimSpace (Role m) = ''assistant'')
         \<and> out = main # toolMessages ps
         \<and> field (Some main) ''role'' = JStr (TrimSpace (Role m))
         \<and> field (Some main) ''tool_calls''
             = (if TrimSpace (Role m) = ''assistant'' \<and> toolCalls ps \<noteq> []
                then JMaps (toolCalls ps) else JNull)"
  using assms
  by (auto simp: anthropicMessageToOpenAIMessages_def Let_def field_def
      split: if_splits sum.splits)

lemma message_round_trip:
  assumes fwd: "anthropicMessageToOpenAIMessages marshal m = Inr out"
    and bwd: "traverse (openAIMessageToAnthropic marshal unmarshal)
                (map (\<lambda>x. JObj (wireObject x)) out) = Inr cs"
  shows "systemParts cs = []
       \<and> map Role (convertedMessages cs)
           = TrimSpace (Role m)
               # replicate (length (toolResultsIn (blocksOfMessage m))) ''user''
       \<and> concat (map (\<lambda>x. toolUsesIn (blocksOfMessage x)) (convertedMessages cs))
           = (if TrimSpace (Role m) = ''assistant'' then toolUsesIn (blocksOfMessage m)
              else [])
       \<and> concat (map (\<lambda>x. toolResultsIn (blocksOfMessage x)) (convertedMessages cs))
           = map TrimSpace (toolResultsIn (blocksOfMessage m))"
proof -
  from forward_message_form [OF fwd] obtain blocks ps main where
    blocks: "anthropicContentToBlocks (Content m) = Inr blocks"
    and ps: "traverse (blockToPart marshal) blocks = Inr ps"
    and role: "TrimSpace (Role m) = ''user'' \<or> TrimSpace (Role m) = ''assistant''"
    and out: "out = main # toolMessages ps"
    and r: "field (Some main) ''role'' = JStr (TrimSpace (Role m))"
    and tc: "field (Some main) ''tool_calls''
               = (if TrimSpace (Role m) = ''assistant'' \<and> toolCalls ps \<noteq> []
                  then JMaps (toolCalls ps) else JNull)" by blast
  have bm: "blocksOfMessage m = blocks" by (simp add: blocksOfMessage_def blocks)
  let ?tcs = "if TrimSpace (Role m) = ''assistant'' then toolCalls ps else []"
  from parts_toolCalls [OF ps] have uses: "map callIdName (toolCalls ps) = toolUsesIn blocks"
    and wfc: "\<forall>call \<in> set (toolCalls ps). wellFormedCall call" by simp_all
  from parts_toolMessages [OF ps] have
    results: "map (\<lambda>tm. stringOr (field (Some tm) ''tool_call_id'')) (toolMessages ps)
                = toolResultsIn blocks"
    and wft: "\<forall>tm \<in> set (toolMessages ps). wellFormedToolMessage tm" by simp_all
  from bwd obtain c cs' where
    c: "openAIMessageToAnthropic marshal unmarshal (JObj (wireObject main)) = Inr c"
    and cs': "traverse (openAIMessageToAnthropic marshal unmarshal)
                (map (\<lambda>x. JObj (wireObject x)) (toolMessages ps)) = Inr cs'"
    and cs: "cs = c # cs'"
    unfolding out by (auto split: sum.splits)
  have tc': "field (Some main) ''tool_calls'' = (if ?tcs \<noteq> [] then JMaps ?tcs else JNull)"
    using tc by simp
  have wfc': "\<forall>call \<in> set ?tcs. wellFormedCall call" using wfc by simp
  from main_message_back [OF role r tc' wfc' c] obtain m0 where
    m0: "c = Converted m0" "Role m0 = TrimSpace (Role m)"
      "toolUsesIn (blocksOfMessage m0) = map callIdName ?tcs"
      "toolResultsIn (blocksOfMessage m0) = []" by blast
  from tool_messages_back [OF wft cs'] have t:
    "systemParts cs' = []"
    "map Role (convertedMessages cs') = replicate (length (toolMessages ps)) ''user''"
    "concat (map (\<lambda>x. toolUsesIn (blocksOfMessage x)) (convertedMessages cs')) = []"
    "concat (map (\<lambda>x. toolResultsIn (blocksOfMessage x)) (convertedMessages cs'))
       = map (\<lambda>tm. TrimSpace (stringOr (field (Some tm) ''tool_call_id''))) (toolMessages ps)"
    by simp_all
  have len: "length (toolMessages ps) = length (toolResultsIn blocks)"
    using arg_cong [OF results, of length] by simp
  have res: "map (\<lambda>tm. TrimSpace (stringOr (field (Some tm) ''tool_call_id'')))
               (toolMessages ps) = map TrimSpace (toolResultsIn blocks)"
    using arg_cong [OF results, of "map TrimSpace"] by (simp add: comp_def)
  have c1: "systemParts cs = []"
    by (simp add: cs m0(1) systemParts_def t(1) [unfolded systemParts_def])
  have msgs: "convertedMessages cs = m0 # convertedMessages cs'"
    by (simp add: cs m0(1) convertedMessages_def)
  have c2: "map Role (convertedMessages cs)
              = TrimSpace (Role m) # replicate (length (toolResultsIn blocks)) ''user''"
    by (simp add: msgs m0(2) t(2) len)
  have c3: "concat (map (\<lambda>x. toolUsesIn (blocksOfMessage x)) (convertedMessages cs))
              = (if TrimSpace (Role m) = ''assistant'' then toolUsesIn blocks else [])"
    by (simp add: msgs m0(3) t(3) uses)
  have c4: "concat (map (\<lambda>x. toolResultsIn (blocksOfMessage x)) (convertedMessages cs))
              = map TrimSpace (toolResultsIn blocks)"
    by (simp add: msgs m0(4) t(4) res)
  from c1 c2 c3 c4 show ?thesis by (simp add: bm)
qed

lemma messages_round_trip:
  assumes "traverse (anthropicMessageToOpenAIMessages marshal) ms = Inr outs"
    and "traverse (openAIMessageToAnthropic marshal unmarshal)
           (map (\<lambda>x. JObj (wireObject x)) (concat outs)) = Inr cs"
  shows "systemParts cs = []
       \<and> map Role (convertedMessages cs)
           = concat (map (\<lambda>m. TrimSpace (Role m)
                                # replicate (length (toolResultsIn (blocksOfMessage m)))
                                    ''user'') ms)
       \<and> concat (map (\<lambda>x. toolUsesIn (blocksOfMessage x)) (convertedMessages cs))
           = concat (map (\<lambda>m. if TrimSpace (Role m) = ''assistant''
                               then toolUsesIn (blocksOfMessage m) else []) ms)
       \<and> concat (map (\<lambda>x. toolResultsIn (blocksOfMessage x)) (convertedMessages cs))
           = map TrimSpace (concat (map (\<lambda>m. toolResultsIn (blocksOfMessage m)) ms))"
  using assms
proof (induction ms arbitrary: outs cs)
  case Nil
  then show ?case by (simp add: systemParts_def convertedMessages_def)
next
  case (Cons m ms)
  from Cons.prems(1) obtain out outs' where
    td: "anthropicMessageToOpenAIMessages marshal m = Inr out"
    and os: "traverse (anthropicMessageToOpenAIMessages marshal) ms = Inr outs'"
    and outs: "outs = out # outs'"
    by (rule traverse_Cons_Inr)
  from Cons.prems(2) have
    "traverse (openAIMessageToAnthropic marshal unmarshal)
       (map (\<lambda>x. JObj (wireObject x)) out @ map (\<lambda>x. JObj (wireObject x)) (concat outs'))
       = Inr cs"
    by (simp add: outs)
  then obtain as bs where
    a: "traverse (openAIMessageToAnthropic marshal unmarshal)
          (map (\<lambda>x. JObj (wireObject x)) out) = Inr as"
    and b: "traverse (openAIMessageToAnthropic marshal unmarshal)
          (map (\<lambda>x. JObj (wireObject x)) (concat outs')) = Inr bs"
    and cs: "cs = as @ bs"
    by (rule traverse_append_Inr)
  from message_round_trip [OF td a] Cons.IH [OF os b] show ?case
    by (simp add: cs systemParts_append convertedMessages_append)
qed

text \<open>The tool definitions, there and back.\<close>

lemma tool_round_trip:
  assumes "anthropicToolToOpenAI t = Inr td"
    and "openAIToolToAnthropic (JObj (wireObject td)) = Inr t'"
  shows "toolName t' = toolName t"
proof -
  from assms(1) obtain params where
    td: "td = [(''type'', JStr ''function''),
             (''function'', JObj [(''name'', JStr (toolName t)),
                                  (''description'', JStr (Description t)),
                                  (''parameters'', params)])]"
    by (auto simp: anthropicToolToOpenAI_def split: if_splits rawMessage.splits)
  from assms(2) show ?thesis
    unfolding td
    by (auto simp: openAIToolToAnthropic_def structObject_def structString_def field_def
        split: if_splits)
qed

lemma tools_round_trip_list:
  assumes "traverse anthropicToolToOpenAI ts = Inr os"
    and "traverse openAIToolToAnthropic (map (\<lambda>x. JObj (wireObject x)) os) = Inr ts'"
  shows "map toolName ts' = map toolName ts"
  using assms
proof (induction ts arbitrary: os ts')
  case Nil
  then show ?case by auto
next
  case (Cons t ts)
  from Cons.prems(1) obtain td os' where
    td: "anthropicToolToOpenAI t = Inr td"
    and os': "traverse anthropicToolToOpenAI ts = Inr os'" and os: "os = td # os'"
    by (rule traverse_Cons_Inr)
  from Cons.prems(2) obtain t' ts'' where
    t': "openAIToolToAnthropic (JObj (wireObject td)) = Inr t'"
    and ts'': "traverse openAIToolToAnthropic (map (\<lambda>x. JObj (wireObject x)) os') = Inr ts''"
    and ts': "ts' = t' # ts''"
    unfolding os by (auto split: sum.splits)
  from tool_round_trip [OF td t'] Cons.IH [OF os' ts''] show ?case
    by (simp add: ts')
qed

lemma tools_round_trip:
  assumes "anthropicToolsToOpenAIToolsRaw ts = Inr raw"
    and "openAIToolsToAnthropicTools (wireRaw raw) = Inr ts'"
  shows "map toolName ts' = map toolName ts"
proof (cases "ts = []")
  case True
  with assms show ?thesis
    by (simp add: anthropicToolsToOpenAIToolsRaw_def openAIToolsToAnthropicTools_def
          wireRaw_def)
next
  case False
  with assms(1) obtain os where os: "traverse anthropicToolToOpenAI ts = Inr os"
    and raw: "raw = RawJSON (JMaps os)"
    by (auto simp: anthropicToolsToOpenAIToolsRaw_def split: sum.splits)
  from assms(2) have
    "traverse openAIToolToAnthropic (map (\<lambda>x. JObj (wireObject x)) os) = Inr ts'"
    by (simp add: raw wireRaw_def openAIToolsToAnthropicTools_def)
  with os show ?thesis by (rule tools_round_trip_list)
qed

text \<open>The system text, there and back.\<close>

lemma system_message_back:
  "openAIMessageToAnthropic marshal unmarshal
     (JObj (wireObject [(''role'', JStr ''system''), (''content'', JStr st)]))
     = Inr (SystemPart st)"
  by (simp add: openAIMessageToAnthropic_def asObject_def field_def stringOr_def
        asString_def stringifyJSONish_def TrimSpace_def isSpace_def Let_def)

lemmas json_defs = field_def asString_def asObject_def asArray_def stringOr_def
  TrimSpace_def isSpace_def Let_def

lemmas conv_defs = AnthropicToOpenAIChatRequest_def anthropicMessageToOpenAIMessages_def
  anthropicContentToBlocks_def blockToPart_def textParts_def reasoningParts_def
  contentParts_def hasNonText_def toolCalls_def toolMessages_def
  anthropicToolResultContentToText_def stringifyJSONish_def anthropicToolsToOpenAIToolsRaw_def
  anthropicToolToOpenAI_def anthropicToolChoiceToOpenAIToolChoiceRaw_def
  OpenAIToAnthropicMessageRequest_def openAIMessageToAnthropic_def
  openAIMessageContentToAnthropicBlocks_def openAIToolCallsToAnthropicBlocks_def
  openAIToolCallToBlock_def openAIToolsToAnthropicTools_def openAIToolToAnthropic_def
  openAIToolChoiceToAnthropicToolChoice_def structString_def structObject_def
  systemParts_def convertedMessages_def wireRequest_def wireRaw_def exRequest_def
  exMarshal_def exUnmarshal_def textOfBlock_def

text \<open>
  Claim C6, as the specification states it, fails. Applied to the request that
  \<open>AnthropicToOpenAIChatRequest\<close> returns, \<open>OpenAIToAnthropicMessageRequest\<close> refuses it:
  the messages are a \<open>[]map[string]any\<close> and the conversion back asserts \<open>[]any\<close>.
  Applied to that request as it is decoded from its JSON encoding, it returns a request
  whose system text has lost its surrounding blanks and which has four messages, with the
  roles user, assistant, user, user, for the three of the original: the \<open>tool_result\<close>
  block of the third message has become a message of its own, after an empty one.
\<close>

theorem request_round_trip_counterexample:
  "map_sum id (OpenAIToAnthropicMessageRequest exMarshal exUnmarshal)
     (AnthropicToOpenAIChatRequest exMarshal exRequest)
     = Inr (Inl ErrUnsupportedMessageShape)
   \<and> map_sum id (\<lambda>req. map_sum id (\<lambda>a. (System a, map Role (Messages a)))
                          (OpenAIToAnthropicMessageRequest exMarshal exUnmarshal
                             (wireRequest req)))
       (AnthropicToOpenAIChatRequest exMarshal exRequest)
     = Inr (Inr (JStr ''be brief'', [''user'', ''assistant'', ''user'', ''user'']))
   \<and> System exRequest = JStr '' be brief ''
   \<and> map Role (Messages exRequest) = [''user'', ''assistant'', ''user'']"
  by (simp add: conv_defs json_defs)

text \<open>
  Claim C6, amended. Let an Anthropic request be accepted by
  \<open>AnthropicToOpenAIChatRequest\<close> and let the result, decoded from its JSON encoding, be
  accepted by \<open>OpenAIToAnthropicMessageRequest\<close>. Then the request that comes back has
  the system text of the original without its surrounding white space (none if that is
  empty); the same tool names in the same order; for every message of the original, in
  order, one message with its role (without surrounding white space) followed by one
  user message for each of its \<open>tool_result\<close> blocks; the ids and names of the
  \<open>tool_use\<close> blocks of the assistant messages, in order; and the ids the \<open>tool_result\<close>
  blocks refer to, in order and without surrounding white space.
\<close>

theorem request_round_trip:
  assumes fwd: "AnthropicToOpenAIChatRequest marshal ar = Inr req"
    and bwd: "OpenAIToAnthropicMessageRequest marshal unmarshal (wireRequest req) = Inr ar'"
  shows "System ar' = (if TrimSpace (systemTextOf marshal ar) = [] then JNull
                       else JStr (TrimSpace (systemTextOf marshal ar)))
       \<and> map toolName (Tools ar') = map toolName (Tools ar)
       \<and> map Role (Messages ar')
           = concat (map (\<lambda>m. TrimSpace (Role m)
                                # replicate (length (toolResultsIn (blocksOfMessage m)))
                                    ''user'') (Messages ar))
       \<and> concat (map (\<lambda>m. toolUsesIn (blocksOfMessage m)) (Messages ar'))
           = concat (map (\<lambda>m. if TrimSpace (Role m) = ''assistant''
                               then toolUsesIn (blocksOfMessage m) else []) (Messages ar))
       \<and> concat (map (\<lambda>m. toolResultsIn (blocksOfMessage m)) (Messages ar'))
           = map TrimSpace (concat (map (\<lambda>m. toolResultsIn (blocksOfMessage m))
                                      (Messages ar)))"
proof -
  let ?st = "systemTextOf marshal ar"
  let ?sys = "if TrimSpace ?st \<noteq> []
              then [[(''role'', JStr ''system''), (''content'', JStr ?st)]] else []"
  let ?W = "\<lambda>x. JObj (wireObject x)"
  from fwd obtain msgs toolDefs toolChoice where
    msgs: "traverse (anthropicMessageToOpenAIMessages marshal) (Messages ar) = Inr msgs"
    and tools: "anthropicToolsToOpenAIToolsRaw (Tools ar) = Inr toolDefs"
    and req: "req = \<lparr> ccModel = mcModel ar, ccMessages = JMaps (?sys @ concat msgs),
                      ccMaxTokens = Some (mcMaxTokens ar),
                      ccTemperature = Temperature ar, ccTopP = TopP ar,
                      ccStream = mcStream ar, ccTools = toolDefs,
                      ccToolChoice = toolChoice \<rparr>"
    by (auto simp: AnthropicToOpenAIChatRequest_def systemTextOf_def Let_def
        split: sum.splits)
  have wm: "ccMessages (wireRequest req) = JArr (map ?W ?sys @ map ?W (concat msgs))"
    by (simp add: req wireRequest_def)
  have wt: "ccTools (wireRequest req) = wireRaw toolDefs"
    by (simp add: req wireRequest_def)
  from bwd obtain cs tools' where
    cs: "traverse (openAIMessageToAnthropic marshal unmarshal)
           (map ?W ?sys @ map ?W (concat msgs)) = Inr cs"
    and tools': "openAIToolsToAnthropicTools (wireRaw toolDefs) = Inr tools'"
    and ar': "Messages ar' = convertedMessages cs" "Tools ar' = tools'"
      "System ar' = (if TrimSpace (joinLF (systemParts cs)) \<noteq> []
                     then JStr (TrimSpace (joinLF (systemParts cs))) else JNull)"
    unfolding OpenAIToAnthropicMessageRequest_def wm wt
    by (auto simp: asArray_def Let_def split: sum.splits)
  from cs obtain as bs where
    as: "traverse (openAIMessageToAnthropic marshal unmarshal) (map ?W ?sys) = Inr as"
    and bs: "traverse (openAIMessageToAnthropic marshal unmarshal) (map ?W (concat msgs))
               = Inr bs"
    and split: "cs = as @ bs"
    by (rule traverse_append_Inr)
  have smb: "openAIMessageToAnthropic marshal unmarshal
               (JObj [(''role'', JStr ''system''), (''content'', JStr ?st)])
             = Inr (SystemPart ?st)"
    using system_message_back [of marshal unmarshal ?st] by simp
  have as': "as = (if TrimSpace ?st \<noteq> [] then [SystemPart ?st] else [])"
    using as by (auto simp: smb split: if_splits)
  from messages_round_trip [OF msgs bs] have m:
    "systemParts bs = []"
    "map Role (convertedMessages bs)
       = concat (map (\<lambda>m. TrimSpace (Role m)
                            # replicate (length (toolResultsIn (blocksOfMessage m)))
                                ''user'') (Messages ar))"
    "concat (map (\<lambda>x. toolUsesIn (blocksOfMessage x)) (convertedMessages bs))
       = concat (map (\<lambda>m. if TrimSpace (Role m) = ''assistant''
                           then toolUsesIn (blocksOfMessage m) else []) (Messages ar))"
    "concat (map (\<lambda>x. toolResultsIn (blocksOfMessage x)) (convertedMessages bs))
       = map TrimSpace (concat (map (\<lambda>m. toolResultsIn (blocksOfMessage m)) (Messages ar)))"
    by simp_all
  have sa: "systemParts as = (if TrimSpace ?st \<noteq> [] then [?st] else [])"
    by (simp add: as' systemParts_def)
  have ca: "convertedMessages as = []"
    by (simp add: as' convertedMessages_def)
  have sp: "systemParts cs = (if TrimSpace ?st \<noteq> [] then [?st] else [])"
    unfolding split systemParts_append sa m(1) by simp
  have cm: "convertedMessages cs = convertedMessages bs"
    unfolding split convertedMessages_append ca by simp
  have e: "TrimSpace [] = []" by (simp add: TrimSpace_def)
  have 1: "System ar' = (if TrimSpace ?st = [] then JNull else JStr (TrimSpace ?st))"
    by (simp add: ar'(3) sp e)
  have 2: "map toolName (Tools ar') = map toolName (Tools ar)"
    using tools_round_trip [OF tools tools'] by (simp add: ar'(2))
  from 1 2 m(2,3,4) show ?thesis by (simp add: ar'(1) cm)
qed

theorem request_round_trip_witness:
  "\<exists>req ar'. AnthropicToOpenAIChatRequest exMarshal exRequest = Inr req
     \<and> OpenAIToAnthropicMessageRequest exMarshal exUnmarshal (wireRequest req) = Inr ar'
     \<and> System ar' = JStr ''be brief''
     \<and> map toolName (Tools ar') = [''get_weather'']
     \<and> map Role (Messages ar') = [''user'', ''assistant'', ''user'', ''user'']
     \<and> concat (map (\<lambda>m. toolUsesIn (blocksOfMessage m)) (Messages ar'))
         = [(''toolu_1'', ''get_weather'')]
     \<and> concat (map (\<lambda>m. toolResultsIn (blocksOfMessage m)) (Messages ar')) = [''toolu_1'']"
proof -
  obtain req where f: "AnthropicToOpenAIChatRequest exMarshal exRequest = Inr req"
    by (simp add: conv_defs json_defs)
  obtain ar' where
    b: "OpenAIToAnthropicMessageRequest exMarshal exUnmarshal (wireRequest req) = Inr ar'"
    using f by (auto simp: conv_defs json_defs)
  from request_round_trip [OF f b] have r:
    "System ar' = JStr ''be brief''
     \<and> map toolName (Tools ar') = [''get_weather'']
     \<and> map Role (Messages ar') = [''user'', ''assistant'', ''user'', ''user'']
     \<and> concat (map (\<lambda>m. toolUsesIn (blocksOfMessage m)) (Messages ar'))
         = [(''toolu_1'', ''get_weather'')]
     \<and> concat (map (\<lambda>m. toolResultsIn (blocksOfMessage m)) (Messages ar')) = [''toolu_1'']"
    by (simp add: systemTextOf_def TrimSpace_def isSpace_def exRequest_def
          blocksOfMessage_def anthropicContentToBlocks_def toolResultsIn_def
          toolUsesIn_def blockType_def field_def asObject_def asString_def stringOr_def)
  show ?thesis
    by (rule exI [of _ req], rule exI [of _ ar']) (simp add: f b r)
qed

end
